theory Spec2Isabelle
  imports Main "HOL-Library.Sublist"
begin

section \<open>JavaScript values and strings\<close>

text \<open>
  The fields the reconciliation code reads are strings that may be absent. A field is
  modelled by its JavaScript value: \<open>undefined\<close>, \<open>null\<close> or a string. Strings are
  Isabelle strings and stand for strings of ASCII characters: on these \<open>toLowerCase\<close> and
  \<open>toUpperCase\<close> map the letters and leave every other character unchanged, as JavaScript
  does. A statement that rests on the case mapping of its inputs assumes that they are
  ASCII (\<open>ascii\<close> below).
\<close>

datatype jsval = Undefined | Null | Str string

fun truthy :: "jsval \<Rightarrow> bool" where
  "truthy (Str s) = (s \<noteq> [])"
| "truthy _ = False"

text \<open>\<open>a || b\<close> on values.\<close>

definition js_or :: "jsval \<Rightarrow> jsval \<Rightarrow> jsval" where
  "js_or a b = (if truthy a then a else b)"

text \<open>Interpolation of a value in a template literal.\<close>

fun tmpl :: "jsval \<Rightarrow> string" where
  "tmpl Undefined = ''undefined''"
| "tmpl Null = ''null''"
| "tmpl (Str s) = s"

definition lower_char :: "char \<Rightarrow> char" where
  "lower_char c =
     (case map_of (zip ''ABCDEFGHIJKLMNOPQRSTUVWXYZ'' ''abcdefghijklmnopqrstuvwxyz'') c of
        Some l \<Rightarrow> l
      | None \<Rightarrow> c)"

definition upper_char :: "char \<Rightarrow> char" where
  "upper_char c =
     (case map_of (zip ''abcdefghijklmnopqrstuvwxyz'' ''ABCDEFGHIJKLMNOPQRSTUVWXYZ'') c of
        Some u \<Rightarrow> u
      | None \<Rightarrow> c)"

definition toLowerCase :: "string \<Rightarrow> string" where
  "toLowerCase s = map lower_char s"

definition toUpperCase :: "string \<Rightarrow> string" where
  "toUpperCase s = map upper_char s"

definition ascii :: "string \<Rightarrow> bool" where
  "ascii s = list_all (\<lambda>c. (of_char c :: nat) < 128) s"

text \<open>\<open>s.includes(sub)\<close>: \<open>sub\<close> occurs in \<open>s\<close> as a contiguous substring.\<close>

fun includes_str :: "string \<Rightarrow> string \<Rightarrow> bool" where
  "includes_str [] sub = (sub = [])"
| "includes_str (c # s) sub = (prefix sub (c # s) \<or> includes_str s sub)"

section \<open>Power-State Interpreter\<close>

text \<open>The active-app descriptor returned by the device; \<open>None\<close> is \<open>null\<close>.\<close>

record active_app =
  app_type :: jsval
  app_name :: jsval

text \<open>\<open>activeApp?.type === 'screensaver'\<close>\<close>

definition is_screensaver :: "active_app option \<Rightarrow> bool" where
  "is_screensaver activeApp =
     (case activeApp of None \<Rightarrow> False | Some a \<Rightarrow> app_type a = Str ''screensaver'')"

definition interpretPowerState :: "jsval \<Rightarrow> active_app option \<Rightarrow> string" where
  "interpretPowerState rawPowerMode activeApp =
     (let mode = toLowerCase (tmpl (js_or rawPowerMode (Str '''')))
      in if mode = ''standby'' \<or> mode = ''displayoff'' \<or> mode = ''display off'' \<or> mode = ''ready''
         then ''standby''
         else if mode = ''headless''
         then (if is_screensaver activeApp then ''standby'' else ''on'')
         else if mode = ''poweron'' \<or> mode = ''power on''
         then (if is_screensaver activeApp then ''standby'' else ''on'')
         else if includes_str mode ''off'' \<or> includes_str mode ''standby'' \<or> includes_str mode ''ready''
         then ''standby''
         else ''on'')"


section \<open>Data model\<close>

text \<open>
  The \<open>metadata\<close> object of a device record. The code reads and writes the keys below and
  copies the object with a spread; a key that is not set reads as \<open>undefined\<close>.
\<close>

record metadata =
  modelNumber :: jsval
  vendorName :: jsval
  isTv :: "bool option"
  isStick :: "bool option"
  mac_address :: jsval
  previous_ip :: jsval
  ip_changed_at :: jsval
  meta_serial_number :: jsval
  meta_power_mode :: jsval

definition empty_metadata :: metadata where
  "empty_metadata =
     \<lparr>modelNumber = Undefined, vendorName = Undefined, isTv = None, isStick = None,
      mac_address = Undefined, previous_ip = Undefined, ip_changed_at = Undefined,
      meta_serial_number = Undefined, meta_power_mode = Undefined\<rparr>"

text \<open>\<open>{...m}\<close> where \<open>m\<close> may be \<open>null\<close> or \<open>undefined\<close> (\<open>None\<close>).\<close>

definition spread :: "metadata option \<Rightarrow> metadata" where
  "spread m = (case m of None \<Rightarrow> empty_metadata | Some x \<Rightarrow> x)"

text \<open>
  A row of the \<open>roku_devices\<close> table, without its primary key \<open>id\<close>. The column
  \<open>created_at\<close>, which the database fills and the core never reads, is left out.
\<close>

record device =
  device_id :: jsval
  ip_address :: jsval
  name :: jsval
  model :: jsval
  serial_number :: jsval
  software_version :: jsval
  power_mode :: jsval
  status :: jsval
  metadata :: "metadata option"
  last_seen_at :: jsval

text \<open>\<open>d.metadata?.mac_address\<close>\<close>

definition metadata_mac :: "device \<Rightarrow> jsval" where
  "metadata_mac d = (case metadata d of None \<Rightarrow> Undefined | Some m \<Rightarrow> mac_address m)"

text \<open>The object returned by \<open>RokuClient.getDeviceInfo\<close> (the fields the core reads).\<close>

record device_info =
  serialNumber :: jsval
  info_vendorName :: jsval
  modelName :: jsval
  info_modelNumber :: jsval
  friendlyDeviceName :: jsval
  softwareVersion :: jsval
  powerMode :: jsval
  info_isStick :: bool
  info_isTv :: bool

text \<open>The descriptor passed to the host's \<open>api.registerDevice\<close>.\<close>

record descriptor =
  deviceId :: jsval
  desc_name :: jsval
  desc_type :: string
  extensionSource :: string
  ipAddress :: jsval
  macAddress :: jsval
  desc_model :: jsval
  manufacturer :: jsval
  firmwareVersion :: jsval
  capabilities :: "string list"
  desc_metadata :: metadata

text \<open>A row of the host's \<open>device_registry\<close> table.\<close>

record reg_row =
  reg_id :: jsval
  reg_name :: jsval
  friendly_name :: jsval
  device_type :: jsval
  reg_ip_address :: jsval
  reg_model :: jsval
  reg_manufacturer :: jsval
  reg_firmware_version :: jsval
  reg_capabilities :: "string list"
  reg_metadata :: metadata
  online :: bool
  consecutive_failures :: nat
  discovered_at :: jsval

text \<open>A row of the host's \<open>entity_states\<close> table (the columns the recovery pass reads).\<close>

record entity =
  entity_id :: jsval
  ent_id :: jsval
  ent_device_id :: jsval
  ent_deviceId :: jsval
  source_device_id :: jsval
  ent_name :: jsval
  ent_friendly_name :: jsval

datatype error = Error string

text \<open>
  Messages passed to \<open>api.log\<close>, one constructor per call site, carrying the interpolated
  values.
\<close>

datatype log_msg =
    StoreNotInitialized
  | FoundLocal nat
  | TableEmpty
  | RecoveredCount nat
  | NothingToSync
  | LegacyIdFound jsval
  | RegistryIpChanged jsval jsval jsval
  | Synced jsval jsval
  | SyncError jsval string
  | NoEntityStates
  | UniqueSlugs nat
  | NoIpFound jsval
  | RecoveredDevice jsval jsval
  | Unreachable jsval string
  | Checking jsval
  | InfoFor jsval jsval jsval
  | Confirmed jsval jsval
  | CandidateIpChanged jsval jsval jsval
  | RegisteredNew jsval jsval
  | VerifyFailed jsval string
  | MatchedBySerial jsval
  | MatchedByMac jsval
  | MatchedByIp jsval

datatype level = Debug | Warn

text \<open>Payloads of \<open>api.broadcast\<close> and of \<open>globalEventBus.emit\<close>.\<close>

datatype event =
    IpChanged jsval jsval jsval jsval
  | DeviceAdded device

text \<open>
  The stores and the effects the core has on the host: the \<open>roku_devices\<close> table with its
  auto-increment key, the registry, the entity states, the log, the broadcasts, the events
  emitted on the global event bus (\<open>None\<close> when the host has no bus), and the sequence of
  descriptors with which \<open>api.registerDevice\<close> was called. \<open>store_ready\<close> says that the
  module variable \<open>deviceStore\<close> is set, which \<open>init\<close> does before it runs the synchronizer
  and registers the discovery handler.
\<close>

record state =
  store_ready :: bool
  rows :: "(nat \<times> device) list"
  next_id :: nat
  registry :: "reg_row list"
  entity_states :: "entity list"
  log :: "(log_msg \<times> level) list"
  broadcasts :: "event list"
  bus_events :: "event list option"
  register_calls :: "descriptor list"

definition api_log :: "log_msg \<Rightarrow> level \<Rightarrow> state \<Rightarrow> state" where
  "api_log m l st = st\<lparr>log := log st @ [(m, l)]\<rparr>"

definition api_broadcast :: "event \<Rightarrow> state \<Rightarrow> state" where
  "api_broadcast e st = st\<lparr>broadcasts := broadcasts st @ [e]\<rparr>"

section \<open>Device store\<close>

text \<open>
  Modelled from the spec: the host's model API for the local device table
  (\<open>findAll\<close>, \<open>create\<close>, \<open>update\<close>) is not part of the repository. \<open>findAll\<close> returns the
  rows in table order, filtered by equality on the given column; \<open>create\<close> appends a row
  under the next key and returns the key; \<open>update\<close> overwrites the given columns of the
  row with the given key.
\<close>

definition getAllDevices :: "state \<Rightarrow> device list" where
  "getAllDevices st = map snd (rows st)"

text \<open>\<open>getDevice\<close>: \<open>results?.[0] || null\<close> of the rows with that \<open>device_id\<close>.\<close>

definition getDevice :: "state \<Rightarrow> jsval \<Rightarrow> (nat \<times> device) option" where
  "getDevice st deviceId' = find (\<lambda>r. device_id (snd r) = deviceId') (rows st)"

definition getDeviceByIp :: "state \<Rightarrow> jsval \<Rightarrow> device option" where
  "getDeviceByIp st ipAddress' = find (\<lambda>d. ip_address d = ipAddress') (getAllDevices st)"

definition createDevice :: "device \<Rightarrow> state \<Rightarrow> state" where
  "createDevice d st = st\<lparr>rows := rows st @ [(next_id st, d)], next_id := Suc (next_id st)\<rparr>"

definition model_update :: "nat \<Rightarrow> (device \<Rightarrow> device) \<Rightarrow> state \<Rightarrow> state" where
  "model_update i f st = st\<lparr>rows := map (\<lambda>r. if fst r = i then (fst r, f (snd r)) else r) (rows st)\<rparr>"

section \<open>Identity Resolver\<close>

text \<open>\<open>mac.toUpperCase().replace(/[:-]/g, ':')\<close>\<close>

definition normalize_mac :: "string \<Rightarrow> string" where
  "normalize_mac m =
     map (\<lambda>c. if c = CHR '':'' \<or> c = CHR ''-'' then CHR '':'' else c) (toUpperCase m)"

text \<open>The callback of the MAC scan.\<close>

definition mac_matches :: "string \<Rightarrow> device \<Rightarrow> bool" where
  "mac_matches normalizedMac d =
     (let deviceMac = metadata_mac d
      in if \<not> truthy deviceMac then False
         else normalize_mac (tmpl deviceMac) = normalizedMac)"

definition findExistingRoku :: "jsval \<Rightarrow> jsval \<Rightarrow> jsval \<Rightarrow> state \<Rightarrow> device option \<times> state" where
  "findExistingRoku serialNumber' mac ip st =
     (let allDevices = getAllDevices st;
          serialMatch = (if truthy serialNumber'
                         then find (\<lambda>d. serial_number d = serialNumber') allDevices else None)
      in case serialMatch of
           Some d \<Rightarrow> (Some d, api_log (MatchedBySerial serialNumber') Debug st)
         | None \<Rightarrow>
            (let macMatch = (if truthy mac
                             then find (mac_matches (normalize_mac (tmpl mac))) allDevices else None)
             in case macMatch of
                  Some d \<Rightarrow> (Some d, api_log (MatchedByMac mac) Debug st)
                | None \<Rightarrow>
                   (case getDeviceByIp st ip of
                      Some d \<Rightarrow> (Some d, api_log (MatchedByIp ip) Debug st)
                    | None \<Rightarrow> (None, st))))"


section \<open>Registry Synchronizer\<close>

text \<open>
  \<open>id.match(/^roku[:\-](.+)$/i)\<close>: the capture group when the string is \<open>roku\<close> in any
  letter case, then a colon or a hyphen, then at least one character, none of them a
  line terminator (line feed or carriage return, among the ASCII characters).
\<close>

fun match_roku_id :: "string \<Rightarrow> string option" where
  "match_roku_id (c1 # c2 # c3 # c4 # sep # rest) =
     (if toLowerCase [c1, c2, c3, c4] = ''roku'' \<and> (sep = CHR '':'' \<or> sep = CHR ''-'')
         \<and> rest \<noteq> [] \<and> (\<forall>c\<in>set rest. c \<noteq> CHR 0x0A \<and> c \<noteq> CHR 0x0D)
      then Some rest else None)"
| "match_roku_id _ = None"

text \<open>
  The host's \<open>api.registerDevice\<close> is a parameter of the model: it takes the descriptor and
  the registry and returns the new registry, or throws.
\<close>

type_synonym host_register = "descriptor \<Rightarrow> reg_row list \<Rightarrow> error + reg_row list"

text \<open>
  Modelled from the spec: the host's registry is not part of the repository. The spec
  describes \<open>api.registerDevice\<close> as an upsert of a registry record keyed by the device
  id, carrying name, type marker, network address, model, vendor, firmware, the capability
  set and the metadata; the host-owned columns of an existing row are kept.
\<close>

definition write_descriptor :: "descriptor \<Rightarrow> reg_row \<Rightarrow> reg_row" where
  "write_descriptor d r =
     r\<lparr>reg_id := deviceId d, reg_name := desc_name d, device_type := Str (desc_type d),
       reg_ip_address := ipAddress d, reg_model := desc_model d,
       reg_manufacturer := manufacturer d, reg_firmware_version := firmwareVersion d,
       reg_capabilities := capabilities d, reg_metadata := desc_metadata d\<rparr>"

definition new_reg_row :: reg_row where
  "new_reg_row =
     \<lparr>reg_id = Undefined, reg_name = Undefined, friendly_name = Undefined,
      device_type = Undefined, reg_ip_address = Undefined, reg_model = Undefined,
      reg_manufacturer = Undefined, reg_firmware_version = Undefined, reg_capabilities = [],
      reg_metadata = empty_metadata, online = False, consecutive_failures = 0,
      discovered_at = Undefined\<rparr>"

definition rewrite_row :: "descriptor \<Rightarrow> reg_row \<Rightarrow> reg_row" where
  "rewrite_row d r = (if reg_id r = deviceId d then write_descriptor d r else r)"

definition upsert_rows :: "descriptor \<Rightarrow> reg_row list \<Rightarrow> reg_row list" where
  "upsert_rows d reg =
     (if \<exists>r\<in>set reg. reg_id r = deviceId d
      then map (rewrite_row d) reg
      else reg @ [write_descriptor d new_reg_row])"

definition registry_upsert :: host_register where
  "registry_upsert d reg = Inr (upsert_rows d reg)"

text \<open>\<open>api.queryBuilder('device_registry').where(column, '=', v).get()\<close>\<close>

definition registry_where_id :: "state \<Rightarrow> jsval \<Rightarrow> reg_row list" where
  "registry_where_id st v = filter (\<lambda>r. reg_id r = v) (registry st)"

definition registry_where_type :: "state \<Rightarrow> jsval \<Rightarrow> reg_row list" where
  "registry_where_type st v = filter (\<lambda>r. device_type r = v) (registry st)"

text \<open>
  The call of \<open>api.registerDevice\<close>: the call is recorded, then the host runs. The result
  is the error thrown, if any, and the state.
\<close>

definition api_registerDevice :: "host_register \<Rightarrow> descriptor \<Rightarrow> state \<Rightarrow> error option \<times> state" where
  "api_registerDevice registerDevice d st =
     (let st' = st\<lparr>register_calls := register_calls st @ [d]\<rparr>
      in case registerDevice d (registry st') of
           Inl e \<Rightarrow> (Some e, st')
         | Inr reg' \<Rightarrow> (None, st'\<lparr>registry := reg'\<rparr>))"

text \<open>\<open>serialMatch?.[1] || device.serial_number\<close>\<close>

definition derived_serial :: "device \<Rightarrow> jsval" where
  "derived_serial device =
     (let serialMatch = (case device_id device of Str s \<Rightarrow> match_roku_id s | _ \<Rightarrow> None)
      in js_or (case serialMatch of Some g \<Rightarrow> Str g | None \<Rightarrow> Undefined) (serial_number device))"

definition normalized_id :: "device \<Rightarrow> jsval" where
  "normalized_id device =
     (let serialNumber' = derived_serial device
      in if truthy serialNumber' then Str (''roku:'' @ tmpl serialNumber') else device_id device)"

definition sync_descriptor :: "device \<Rightarrow> descriptor" where
  "sync_descriptor device =
     \<lparr>deviceId = normalized_id device,
      desc_name = name device,
      desc_type = ''roku'',
      extensionSource = ''roku-integration'',
      ipAddress = ip_address device,
      macAddress = Undefined,
      desc_model = js_or (model device) (Str ''Unknown''),
      manufacturer = js_or (vendorName (spread (metadata device))) (Str ''Roku''),
      firmwareVersion = software_version device,
      capabilities = [''power'', ''apps'', ''remote'', ''volume''],
      desc_metadata = (spread (metadata device))
        \<lparr>meta_serial_number := js_or (serial_number device) (derived_serial device),
         meta_power_mode := power_mode device\<rparr>\<rparr>"

text \<open>
  The registry lookup of the loop body. Its result is used for logging only. The queries
  are total in the model; the source catches a failing query and goes on with no existing
  device, which is the outcome of two empty results.
\<close>

definition find_registered :: "jsval \<Rightarrow> state \<Rightarrow> reg_row option \<times> state" where
  "find_registered serialNumber' st =
     (case registry_where_id st (Str (''roku:'' @ tmpl serialNumber')) of
        r # _ \<Rightarrow> (Some r, st)
      | [] \<Rightarrow>
         (case registry_where_id st (Str (''roku-'' @ tmpl serialNumber')) of
            r # _ \<Rightarrow> (Some r, api_log (LegacyIdFound serialNumber') Debug st)
          | [] \<Rightarrow> (None, st)))"

text \<open>The body of the loop over the local devices, with its \<open>try\<close>/\<open>catch\<close>.\<close>

definition sync_device :: "host_register \<Rightarrow> device \<Rightarrow> state \<Rightarrow> state" where
  "sync_device registerDevice device st =
     (let (existingDevice, st1) = find_registered (derived_serial device) st;
          st2 = (case existingDevice of
                   Some e \<Rightarrow>
                     if reg_ip_address e \<noteq> ip_address device
                     then api_log (RegistryIpChanged (name device) (reg_ip_address e) (ip_address device))
                            Debug st1
                     else st1
                 | None \<Rightarrow> st1);
          (thrown, st3) = api_registerDevice registerDevice (sync_descriptor device) st2
      in case thrown of
           Some (Error msg) \<Rightarrow> api_log (SyncError (name device) msg) Warn st3
         | None \<Rightarrow> api_log (Synced (name device) (normalized_id device)) Debug st3)"

fun sync_loop :: "host_register \<Rightarrow> device list \<Rightarrow> state \<Rightarrow> state" where
  "sync_loop registerDevice [] st = st"
| "sync_loop registerDevice (device # rest) st =
     sync_loop registerDevice rest (sync_device registerDevice device st)"

section \<open>Recovery Scanner\<close>

text \<open>\<open>s.split(sep)\<close> for a one-character separator.\<close>

fun split_on :: "char \<Rightarrow> string \<Rightarrow> string list" where
  "split_on sep [] = [[]]"
| "split_on sep (c # s) =
     (if c = sep then [] # split_on sep s
      else (case split_on sep s of w # ws \<Rightarrow> (c # w) # ws | [] \<Rightarrow> [[c]]))"

definition is_word_char :: "char \<Rightarrow> bool" where
  "is_word_char c =
     (c \<in> set ''abcdefghijklmnopqrstuvwxyzABCDEFGHIJKLMNOPQRSTUVWXYZ0123456789_'')"

definition is_lower_alnum :: "char \<Rightarrow> bool" where
  "is_lower_alnum c = (c \<in> set ''abcdefghijklmnopqrstuvwxyz0123456789'')"

text \<open>
  \<open>s.replace(/\b\w/g, c => c.toUpperCase())\<close>: every word character that starts the string
  or follows a character that is not a word character is upper-cased. The flag says
  whether the previous character was a word character.
\<close>

fun capitalize_words :: "bool \<Rightarrow> string \<Rightarrow> string" where
  "capitalize_words prev [] = []"
| "capitalize_words prev (c # s) =
     (if is_word_char c \<and> \<not> prev then upper_char c else c) # capitalize_words (is_word_char c) s"

text \<open>
  \<open>s.replace(/[^a-z0-9]+/g, '_')\<close>: every maximal run of other characters becomes one
  underscore. The flag says whether the previous character was part of such a run.
\<close>

fun collapse_runs :: "bool \<Rightarrow> string \<Rightarrow> string" where
  "collapse_runs in_run [] = []"
| "collapse_runs in_run (c # s) =
     (if is_lower_alnum c then c # collapse_runs False s
      else if in_run then collapse_runs True s
      else CHR ''_'' # collapse_runs True s)"

text \<open>
  Modelled from the spec: the host's query
  \<open>queryBuilder('entity_states').where('entity_id', 'LIKE', 'roku.%')\<close> is not part of the
  repository; it returns the rows whose \<open>entity_id\<close> starts with \<open>roku.\<close>, in table order.
\<close>

definition entity_states_like_roku :: "state \<Rightarrow> entity list" where
  "entity_states_like_roku st =
     filter (\<lambda>e. case entity_id e of Str s \<Rightarrow> prefix ''roku.'' s | _ \<Rightarrow> False) (entity_states st)"

text \<open>An entry of \<open>deviceMap\<close>.\<close>

record slug_info =
  slug :: string
  si_device_id :: jsval
  si_name :: jsval

text \<open>The slug of an entity row: \<open>parts[1]\<close> when the id has two parts and the first is \<open>roku\<close>.\<close>

definition entity_slug :: "entity \<Rightarrow> string option" where
  "entity_slug e =
     (case js_or (entity_id e) (ent_id e) of
        Str entityId \<Rightarrow>
          (case split_on CHR ''.'' entityId of
             p0 # p1 # _ \<Rightarrow> if p0 = ''roku'' then Some p1 else None
           | _ \<Rightarrow> None)
      | _ \<Rightarrow> None)"

definition slug_entry :: "string \<Rightarrow> entity \<Rightarrow> slug_info" where
  "slug_entry deviceSlug e =
     \<lparr>slug = deviceSlug,
      si_device_id = js_or (ent_device_id e) (js_or (ent_deviceId e) (source_device_id e)),
      si_name = js_or (ent_name e) (js_or (ent_friendly_name e)
         (Str (capitalize_words False
                (map (\<lambda>c. if c = CHR ''_'' then CHR '' '' else c) deviceSlug))))\<rparr>"

text \<open>The loop that fills \<open>deviceMap\<close>, a map that keeps insertion order.\<close>

fun collect_slugs :: "entity list \<Rightarrow> (string \<times> slug_info) list \<Rightarrow> (string \<times> slug_info) list" where
  "collect_slugs [] deviceMap = deviceMap"
| "collect_slugs (e # es) deviceMap =
     (case entity_slug e of
        Some deviceSlug \<Rightarrow>
          if deviceSlug \<in> fst ` set deviceMap then collect_slugs es deviceMap
          else collect_slugs es (deviceMap @ [(deviceSlug, slug_entry deviceSlug e)])
      | None \<Rightarrow> collect_slugs es deviceMap)"

text \<open>The name match of the registry scan.\<close>

definition name_matches :: "string \<Rightarrow> reg_row \<Rightarrow> bool" where
  "name_matches normalizedSlug d =
     (let deviceName = collapse_runs False
            (toLowerCase (tmpl (js_or (friendly_name d) (js_or (reg_name d) (Str [])))))
      in includes_str deviceName normalizedSlug \<or> includes_str normalizedSlug deviceName)"

text \<open>
  The IP address recovered for a slug: by the associated device id, then by name among
  the registry rows of type \<open>roku\<close>. \<open>Null\<close> is the initial value of \<open>ipAddress\<close>.
\<close>

definition recover_ip :: "state \<Rightarrow> slug_info \<Rightarrow> jsval" where
  "recover_ip st deviceInfo =
     (let byId = (if truthy (si_device_id deviceInfo)
                  then (case registry_where_id st (si_device_id deviceInfo) of
                          r # _ \<Rightarrow> reg_ip_address r
                        | [] \<Rightarrow> Null)
                  else Null)
      in if truthy byId then byId
         else (case find (name_matches (toLowerCase (slug deviceInfo)))
                      (registry_where_type st (Str ''roku'')) of
                 Some d \<Rightarrow> reg_ip_address d
               | None \<Rightarrow> byId))"

text \<open>The device reached over ECP is a parameter: device info for an address, or a throw.\<close>

type_synonym ecp = "jsval \<Rightarrow> error + device_info"

definition recovered_device :: "slug_info \<Rightarrow> jsval \<Rightarrow> device_info \<Rightarrow> string \<Rightarrow> device" where
  "recovered_device deviceInfo ipAddress' info now =
     \<lparr>device_id = js_or (si_device_id deviceInfo) (Str (''roku:'' @ tmpl (serialNumber info))),
      ip_address = ipAddress',
      name = js_or (friendlyDeviceName info) (si_name deviceInfo),
      model = modelName info,
      serial_number = serialNumber info,
      software_version = softwareVersion info,
      power_mode = powerMode info,
      status = Str ''online'',
      metadata = Some (empty_metadata
        \<lparr>modelNumber := info_modelNumber info, vendorName := info_vendorName info,
         isTv := Some (info_isTv info), isStick := Some (info_isStick info)\<rparr>),
      last_seen_at = Str now\<rparr>"

text \<open>The body of the loop over \<open>deviceMap\<close>; the clock reads \<open>now\<close>.\<close>

definition recover_slug :: "ecp \<Rightarrow> string \<Rightarrow> slug_info \<Rightarrow> device list \<times> state \<Rightarrow> device list \<times> state" where
  "recover_slug getDeviceInfo now deviceInfo acc =
     (let recoveredDevices = fst acc; st = snd acc; ipAddress' = recover_ip st deviceInfo
      in if \<not> truthy ipAddress'
         then (recoveredDevices, api_log (NoIpFound (si_name deviceInfo)) Debug st)
         else (case getDeviceInfo ipAddress' of
                 Inl (Error msg) \<Rightarrow> (recoveredDevices, api_log (Unreachable ipAddress' msg) Debug st)
               | Inr info \<Rightarrow>
                  (let fullDevice = recovered_device deviceInfo ipAddress' info now
                   in (recoveredDevices @ [fullDevice],
                       api_log (RecoveredDevice (name fullDevice) ipAddress') Debug
                         (createDevice fullDevice st)))))"

fun recover_loop :: "ecp \<Rightarrow> string \<Rightarrow> slug_info list \<Rightarrow> device list \<times> state \<Rightarrow> device list \<times> state" where
  "recover_loop getDeviceInfo now [] acc = acc"
| "recover_loop getDeviceInfo now (deviceInfo # rest) acc =
     recover_loop getDeviceInfo now rest (recover_slug getDeviceInfo now deviceInfo acc)"

text \<open>
  \<open>recoverDevicesFromEntityStates\<close>. The queries and the store are total in the model, so
  the outer \<open>catch\<close> of the source, which logs and returns what was recovered so far, has
  no branch here.
\<close>

definition recoverDevicesFromEntityStates :: "ecp \<Rightarrow> string \<Rightarrow> state \<Rightarrow> device list \<times> state" where
  "recoverDevicesFromEntityStates getDeviceInfo now st =
     (let entities = entity_states_like_roku st
      in if entities = [] then ([], api_log NoEntityStates Debug st)
         else (let deviceMap = collect_slugs entities []
               in recover_loop getDeviceInfo now (map snd deviceMap)
                    ([], api_log (UniqueSlugs (length deviceMap)) Debug st)))"


section \<open>Poll adapter\<close>

text \<open>\<open>s.replace(/^_|_$/g, '')\<close>: one leading and one trailing underscore are removed.\<close>

definition strip_underscores :: "string \<Rightarrow> string" where
  "strip_underscores s =
     (let t = (case s of c # r \<Rightarrow> if c = CHR ''_'' then r else s | [] \<Rightarrow> [])
      in if t \<noteq> [] \<and> last t = CHR ''_'' then butlast t else t)"

definition poll_slug :: "string \<Rightarrow> string" where
  "poll_slug deviceName =
     strip_underscores (collapse_runs False (toLowerCase deviceName))"

text \<open>The object returned by \<open>RokuClient.getActiveApp\<close>: type, name and id; \<open>None\<close> is \<open>null\<close>.\<close>

record fetched_app = active_app +
  app_id :: jsval

text \<open>The fetch of the active app is a parameter, as the fetch of the device info is.\<close>

type_synonym ecp_app = "jsval \<Rightarrow> error + fetched_app option"

text \<open>The entity \<open>pollDevice\<close> returns, with its attributes.\<close>

record polled_entity =
  entityId :: string
  entity_state :: string
  attr_power_mode :: jsval
  attr_power_state :: string
  attr_active_app :: jsval
  attr_active_app_id :: jsval
  attr_app_type :: jsval
  attr_app_version :: jsval
  attr_is_screensaver :: bool
  attr_screensaver_name :: jsval
  attr_device_type :: string
  attr_friendly_name :: jsval

text \<open>\<open>mainState\<close>: \<open>off\<close>, \<open>idle\<close>, \<open>playing\<close> or \<open>on\<close>.\<close>

definition main_state :: "string \<Rightarrow> fetched_app option \<Rightarrow> string" where
  "main_state powerState activeApp =
     (if powerState = ''off'' \<or> powerState = ''standby'' then ''off''
      else if is_screensaver (map_option active_app.truncate activeApp) then ''idle''
      else if (case activeApp of
                 None \<Rightarrow> False
               | Some a \<Rightarrow> truthy (app_name a) \<and> app_name a \<noteq> Str ''Home'')
      then ''playing''
      else ''on'')"

text \<open>
  \<open>pollDevice\<close> for a row of the registry. It throws for a row without \<open>id\<close> or without
  \<open>ip_address\<close>, and when one of the two fetches throws; the object returned by
  \<open>getActiveApp\<close> has no \<open>version\<close>, so \<open>app_version\<close> is \<open>null\<close>. With an \<open>id\<close> the device name
  \<open>friendly_name || name || id\<close> is a string. The two fetches run under \<open>Promise.all\<close>; when
  both throw, the model reports the error of the device-info fetch.
\<close>

definition pollDevice :: "ecp \<Rightarrow> ecp_app \<Rightarrow> reg_row \<Rightarrow> error + polled_entity list" where
  "pollDevice getDeviceInfo getActiveApp device =
     (if \<not> truthy (reg_id device) then Inl (Error ''Invalid device object - missing id'')
      else if \<not> truthy (reg_ip_address device)
      then Inl (Error (''Device '' @ tmpl (reg_id device) @ '' missing ip_address''))
      else
        (case getDeviceInfo (reg_ip_address device) of
           Inl e \<Rightarrow> Inl e
         | Inr info \<Rightarrow>
            (case getActiveApp (reg_ip_address device) of
               Inl e \<Rightarrow> Inl e
             | Inr activeApp \<Rightarrow>
                (let powerState = interpretPowerState (powerMode info)
                                    (map_option active_app.truncate activeApp);
                     deviceName = tmpl (js_or (friendly_name device)
                                    (js_or (reg_name device) (reg_id device)));
                     screensaver = is_screensaver (map_option active_app.truncate activeApp)
                 in Inr
                   [\<lparr>entityId = ''media_player.'' @ poll_slug deviceName,
                     entity_state = main_state powerState activeApp,
                     attr_power_mode = powerMode info,
                     attr_power_state = powerState,
                     attr_active_app =
                       js_or (case activeApp of None \<Rightarrow> Undefined | Some a \<Rightarrow> app_name a)
                         (Str ''Home''),
                     attr_active_app_id =
                       js_or (case activeApp of None \<Rightarrow> Undefined | Some a \<Rightarrow> app_id a) Null,
                     attr_app_type =
                       js_or (case activeApp of None \<Rightarrow> Undefined | Some a \<Rightarrow> app_type a) Null,
                     attr_app_version = Null,
                     attr_is_screensaver = screensaver,
                     attr_screensaver_name =
                       (case activeApp of
                          None \<Rightarrow> Null
                        | Some a \<Rightarrow> if screensaver then app_name a else Null),
                     attr_device_type = ''roku'',
                     attr_friendly_name = friendly_name device\<rparr>]))))"

section \<open>Discovery candidates\<close>

record candidate =
  cand_ip :: jsval
  cand_ip_address :: jsval
  cand_mac :: jsval
  cand_mac_address :: jsval

text \<open>The result: \<open>{claim: false}\<close>, or \<open>{claim: true, deviceId, name, serialNumber}\<close>.\<close>

datatype claim_result = NoClaim | Claim jsval jsval jsval

text \<open>\<open>DeviceStore.updateDevice\<close> and \<open>updateDeviceStatus\<close>: the columns to write.\<close>

record patch =
  p_ip_address :: "jsval option"
  p_status :: "jsval option"
  p_last_seen_at :: "jsval option"
  p_metadata :: "metadata option"

definition apply_patch :: "patch \<Rightarrow> device \<Rightarrow> device" where
  "apply_patch data d =
     d\<lparr>ip_address := (case p_ip_address data of Some v \<Rightarrow> v | None \<Rightarrow> ip_address d),
       status := (case p_status data of Some v \<Rightarrow> v | None \<Rightarrow> status d),
       last_seen_at := (case p_last_seen_at data of Some v \<Rightarrow> v | None \<Rightarrow> last_seen_at d),
       metadata := (case p_metadata data of Some m \<Rightarrow> Some m | None \<Rightarrow> metadata d)\<rparr>"

definition updateDevice :: "jsval \<Rightarrow> patch \<Rightarrow> state \<Rightarrow> state" where
  "updateDevice deviceId' data st =
     (case getDevice st deviceId' of
        Some existing \<Rightarrow> model_update (fst existing) (apply_patch data) st
      | None \<Rightarrow> st)"

text \<open>
  The \<open>metadata\<close> object of the data passed to \<open>updateDeviceStatus\<close>, with the keys it has:
  \<open>None\<close> for a key the object does not have, \<open>Some v\<close> for a key set to \<open>v\<close>, which may be
  \<open>undefined\<close>.
\<close>

record metadata_keys =
  k_modelNumber :: "jsval option"
  k_vendorName :: "jsval option"
  k_isTv :: "bool option option"
  k_isStick :: "bool option option"
  k_mac_address :: "jsval option"
  k_previous_ip :: "jsval option"
  k_ip_changed_at :: "jsval option"
  k_serial_number :: "jsval option"
  k_power_mode :: "jsval option"

text \<open>\<open>{...a, ...b}\<close> on metadata: every key that \<open>b\<close> has wins, also when set to \<open>undefined\<close>.\<close>

definition merge_metadata :: "metadata \<Rightarrow> metadata_keys \<Rightarrow> metadata" where
  "merge_metadata a b =
     \<lparr>modelNumber = (case k_modelNumber b of Some v \<Rightarrow> v | None \<Rightarrow> modelNumber a),
      vendorName = (case k_vendorName b of Some v \<Rightarrow> v | None \<Rightarrow> vendorName a),
      isTv = (case k_isTv b of Some v \<Rightarrow> v | None \<Rightarrow> isTv a),
      isStick = (case k_isStick b of Some v \<Rightarrow> v | None \<Rightarrow> isStick a),
      mac_address = (case k_mac_address b of Some v \<Rightarrow> v | None \<Rightarrow> mac_address a),
      previous_ip = (case k_previous_ip b of Some v \<Rightarrow> v | None \<Rightarrow> previous_ip a),
      ip_changed_at = (case k_ip_changed_at b of Some v \<Rightarrow> v | None \<Rightarrow> ip_changed_at a),
      meta_serial_number =
        (case k_serial_number b of Some v \<Rightarrow> v | None \<Rightarrow> meta_serial_number a),
      meta_power_mode = (case k_power_mode b of Some v \<Rightarrow> v | None \<Rightarrow> meta_power_mode a)\<rparr>"

text \<open>The data passed to \<open>updateDeviceStatus\<close>.\<close>

record status_data =
  s_ip_address :: "jsval option"
  s_status :: "jsval option"
  s_last_seen_at :: "jsval option"
  s_metadata :: "metadata_keys option"

text \<open>
  \<open>updateDeviceStatus\<close>: when the data and the stored row both have metadata, the data's
  metadata is merged over the stored one; then the columns of the data are written. A
  metadata object written as it is reads \<open>undefined\<close> at the keys it does not have.
\<close>

definition updateDeviceStatus :: "jsval \<Rightarrow> status_data \<Rightarrow> state \<Rightarrow> state" where
  "updateDeviceStatus deviceId' data st =
     (case getDevice st deviceId' of
        Some existing \<Rightarrow>
          (let written =
                 \<lparr>p_ip_address = s_ip_address data, p_status = s_status data,
                  p_last_seen_at = s_last_seen_at data,
                  p_metadata =
                    (case s_metadata data of
                       None \<Rightarrow> None
                     | Some dm \<Rightarrow>
                        (case metadata (snd existing) of
                           Some em \<Rightarrow> Some (merge_metadata em dm)
                         | None \<Rightarrow> Some (merge_metadata empty_metadata dm)))\<rparr>
           in model_update (fst existing) (apply_patch written) st)
      | None \<Rightarrow> st)"

text \<open>The descriptor registered when a known device has moved to a new address.\<close>

definition moved_descriptor :: "device \<Rightarrow> jsval \<Rightarrow> jsval \<Rightarrow> descriptor" where
  "moved_descriptor existing ip mac =
     \<lparr>deviceId = device_id existing,
      desc_name = name existing,
      desc_type = ''roku'',
      extensionSource = ''roku-integration'',
      ipAddress = ip,
      macAddress = Undefined,
      desc_model = model existing,
      manufacturer = Str ''Roku'',
      firmwareVersion = software_version existing,
      capabilities = [''power'', ''apps'', ''remote'', ''volume''],
      desc_metadata = (spread (metadata existing))
        \<lparr>mac_address := js_or mac (metadata_mac existing)\<rparr>\<rparr>"

text \<open>The patch written when a known device has moved; the clock is read twice.\<close>

definition moved_patch :: "device \<Rightarrow> jsval \<Rightarrow> jsval \<Rightarrow> string \<Rightarrow> string \<Rightarrow> patch" where
  "moved_patch existing ip mac now now' =
     \<lparr>p_ip_address = Some ip,
      p_status = Some (Str ''online''),
      p_last_seen_at = Some (Str now),
      p_metadata = Some ((spread (metadata existing))
        \<lparr>mac_address := js_or mac (metadata_mac existing),
         previous_ip := ip_address existing,
         ip_changed_at := Str now'\<rparr>)\<rparr>"

definition seen_patch :: "string \<Rightarrow> status_data" where
  "seen_patch now =
     \<lparr>s_ip_address = None, s_status = Some (Str ''online''), s_last_seen_at = Some (Str now),
      s_metadata = None\<rparr>"

text \<open>The branch of \<open>handleDiscoveredCandidate\<close> for a candidate that matches a record.\<close>

definition handle_existing ::
  "host_register \<Rightarrow> string \<Rightarrow> string \<Rightarrow> device \<Rightarrow> jsval \<Rightarrow> jsval \<Rightarrow> state
     \<Rightarrow> (error + claim_result) \<times> state" where
  "handle_existing registerDevice now now' existing ip mac st =
     (let oldIp = ip_address existing
      in if oldIp \<noteq> ip
         then
           (let st1 = api_log (CandidateIpChanged (name existing) oldIp ip) Debug st;
                st2 = updateDevice (device_id existing) (moved_patch existing ip mac now now') st1;
                (thrown, st3) = api_registerDevice registerDevice (moved_descriptor existing ip mac) st2
            in case thrown of
                 Some e \<Rightarrow> (Inl e, st3)
               | None \<Rightarrow>
                   (Inr (Claim (device_id existing) (name existing) (serial_number existing)),
                    api_broadcast (IpChanged (device_id existing) (name existing) oldIp ip) st3))
         else
           (Inr (Claim (device_id existing) (name existing) (serial_number existing)),
            updateDeviceStatus (device_id existing) (seen_patch now) st))"

text \<open>The device record and the descriptor of a candidate that matches no record.\<close>

definition new_device :: "jsval \<Rightarrow> device_info \<Rightarrow> jsval \<Rightarrow> jsval \<Rightarrow> string \<Rightarrow> device" where
  "new_device deviceId' info ip mac now =
     \<lparr>device_id = deviceId',
      ip_address = ip,
      name = js_or (friendlyDeviceName info) (Str (''Roku '' @ tmpl (modelName info))),
      model = modelName info,
      serial_number = serialNumber info,
      software_version = softwareVersion info,
      power_mode = powerMode info,
      status = Str ''online'',
      metadata = Some (empty_metadata
        \<lparr>modelNumber := info_modelNumber info, vendorName := info_vendorName info,
         isTv := Some (info_isTv info), isStick := Some (info_isStick info),
         mac_address := mac\<rparr>),
      last_seen_at = Str now\<rparr>"

definition new_descriptor :: "device \<Rightarrow> jsval \<Rightarrow> descriptor" where
  "new_descriptor device mac =
     \<lparr>deviceId = device_id device,
      desc_name = name device,
      desc_type = ''roku'',
      extensionSource = ''roku-integration'',
      ipAddress = ip_address device,
      macAddress = mac,
      desc_model = model device,
      manufacturer = Str ''Roku'',
      firmwareVersion = software_version device,
      capabilities = [''power'', ''apps'', ''remote'', ''volume''],
      desc_metadata = spread (metadata device)\<rparr>"

text \<open>
  \<open>`roku:${info.serialNumber || ip.replace(/\./g, '-')}`\<close>; \<open>replace\<close> on a value that is not a
  string throws.
\<close>

definition new_device_id :: "device_info \<Rightarrow> jsval \<Rightarrow> error + jsval" where
  "new_device_id info ip =
     (if truthy (serialNumber info) then Inr (Str (''roku:'' @ tmpl (serialNumber info)))
      else (case ip of
              Str s \<Rightarrow> Inr (Str (''roku:'' @ map (\<lambda>c. if c = CHR ''.'' then CHR ''-'' else c) s))
            | _ \<Rightarrow> Inl (Error ''TypeError'')))"

text \<open>The branch of \<open>handleDiscoveredCandidate\<close> for a candidate that matches no record.\<close>

definition handle_new ::
  "host_register \<Rightarrow> string \<Rightarrow> device_info \<Rightarrow> jsval \<Rightarrow> jsval \<Rightarrow> state
     \<Rightarrow> (error + claim_result) \<times> state" where
  "handle_new registerDevice now info ip mac st =
     (case new_device_id info ip of
        Inl e \<Rightarrow> (Inl e, st)
      | Inr deviceId' \<Rightarrow>
         (let device = new_device deviceId' info ip mac now;
              st1 = createDevice device st;
              (thrown, st2) = api_registerDevice registerDevice (new_descriptor device mac) st1
          in case thrown of
               Some e \<Rightarrow> (Inl e, st2)
             | None \<Rightarrow>
                (let st3 = api_log (RegisteredNew (name device) ip) Debug st2;
                     st4 = api_broadcast (DeviceAdded device) st3;
                     st5 = (case bus_events st4 of
                              Some es \<Rightarrow> st4\<lparr>bus_events := Some (es @ [DeviceAdded device])\<rparr>
                            | None \<Rightarrow> st4)
                 in (Inr (Claim deviceId' (name device) (serialNumber info)), st5))))"

text \<open>
  \<open>handleDiscoveredCandidate\<close>. The test \<open>isRoku\<close> of the source is a disjunction that ends
  in \<open>true\<close>, so its negative branch is never taken. An error thrown anywhere in the body is
  caught, logged and answered with \<open>{claim: false}\<close>; what was written before it stays.
\<close>

definition handleDiscoveredCandidate ::
  "host_register \<Rightarrow> ecp \<Rightarrow> string \<Rightarrow> string \<Rightarrow> candidate \<Rightarrow> state \<Rightarrow> claim_result \<times> state" where
  "handleDiscoveredCandidate registerDevice getDeviceInfo now now' candidate st =
     (let ip = js_or (cand_ip candidate) (cand_ip_address candidate);
          mac = js_or (cand_mac candidate) (cand_mac_address candidate);
          st1 = api_log (Checking ip) Debug st;
          (outcome, st') =
            (case getDeviceInfo ip of
               Inl e \<Rightarrow> (Inl e, st1)
             | Inr info \<Rightarrow>
                (let st2 = api_log (InfoFor ip (serialNumber info) (info_vendorName info)) Debug st1;
                     st3 = api_log (Confirmed ip (serialNumber info)) Debug st2;
                     (existing, st4) = findExistingRoku (serialNumber info) mac ip st3
                 in case existing of
                      Some ex \<Rightarrow> handle_existing registerDevice now now' ex ip mac st4
                    | None \<Rightarrow> handle_new registerDevice now info ip mac st4))
      in case outcome of
           Inl (Error msg) \<Rightarrow> (NoClaim, api_log (VerifyFailed ip msg) Debug st')
         | Inr r \<Rightarrow> (r, st'))"

section \<open>Sample inputs\<close>

definition sample_device :: "string \<Rightarrow> string \<Rightarrow> string \<Rightarrow> string \<Rightarrow> device" where
  "sample_device did ip sn mac =
     \<lparr>device_id = Str did, ip_address = Str ip, name = Str ''Living Room'',
      model = Str ''Ultra'', serial_number = Str sn, software_version = Str ''12.5'',
      power_mode = Str ''PowerOn'', status = Str ''online'',
      metadata = Some (empty_metadata\<lparr>mac_address := Str mac\<rparr>), last_seen_at = Null\<rparr>"

definition device_x1 :: device where
  "device_x1 = sample_device ''roku:X1'' ''192.168.1.50'' ''X1'' ''aa-bb-cc-dd-ee-01''"

definition device_y2 :: device where
  "device_y2 = sample_device ''roku-Y2'' ''192.168.1.51'' ''Y2'' ''AA:BB:CC:DD:EE:02''"

definition empty_state :: state where
  "empty_state =
     \<lparr>store_ready = True, rows = [], next_id = 1, registry = [], entity_states = [],
      log = [], broadcasts = [], bus_events = Some [], register_calls = []\<rparr>"

definition two_devices :: state where
  "two_devices = empty_state\<lparr>rows := [(1, device_x1), (2, device_y2)], next_id := 3\<rparr>"

text \<open>A host registry that refuses one device id.\<close>

definition flaky_register :: host_register where
  "flaky_register d reg =
     (if deviceId d = Str ''roku:X1'' then Inl (Error ''registry unavailable'')
      else registry_upsert d reg)"


text \<open>
  A registry row for a device named Living Room, the entity row the poll adapter writes
  for it, and the entity row of the older naming; a network on which that device answers.
\<close>

definition living_room_row :: reg_row where
  "living_room_row =
     new_reg_row\<lparr>reg_id := Str ''roku:Z3'', reg_name := Str ''Living Room'',
       device_type := Str ''roku'', reg_ip_address := Str ''192.168.1.60''\<rparr>"

definition den_row :: reg_row where
  "den_row =
     new_reg_row\<lparr>reg_id := Str ''roku:W4'', reg_name := Str ''Den'',
       device_type := Str ''roku'', reg_ip_address := Str ''192.168.1.61''\<rparr>"

definition sample_entity :: "string \<Rightarrow> entity" where
  "sample_entity eid =
     \<lparr>entity_id = Str eid, ent_id = Undefined, ent_device_id = Undefined,
      ent_deviceId = Undefined, source_device_id = Undefined, ent_name = Undefined,
      ent_friendly_name = Undefined\<rparr>"

definition info_z3 :: device_info where
  "info_z3 =
     \<lparr>serialNumber = Str ''Z3'', info_vendorName = Str ''Roku'', modelName = Str ''Express'',
      info_modelNumber = Str ''3930X'', friendlyDeviceName = Str ''Living Room'',
      softwareVersion = Str ''12.5'', powerMode = Str ''PowerOn'', info_isStick = False,
      info_isTv = False\<rparr>"

definition answer_at_60 :: ecp where
  "answer_at_60 ip = (if ip = Str ''192.168.1.60'' then Inr info_z3 else Inl (Error ''timeout''))"

definition polled_state :: state where
  "polled_state =
     empty_state\<lparr>registry := [living_room_row],
       entity_states := [sample_entity ''media_player.living_room'']\<rparr>"

definition orphan_state :: state where
  "orphan_state =
     empty_state\<lparr>registry := [living_room_row, den_row],
       entity_states := [sample_entity ''roku.living_room.power'',
                         sample_entity ''roku.den.power'',
                         sample_entity ''roku.living_room.active_app'']\<rparr>"

definition living_room_slug :: slug_info where
  "living_room_slug =
     \<lparr>slug = ''living_room'', si_device_id = Undefined, si_name = Str ''Living Room''\<rparr>"

definition den_slug :: slug_info where
  "den_slug = \<lparr>slug = ''den'', si_device_id = Undefined, si_name = Str ''Den''\<rparr>"

text \<open>A candidate seen at an address, and a network on which the first device answers.\<close>

definition candidate_at :: "string \<Rightarrow> candidate" where
  "candidate_at a =
     \<lparr>cand_ip = Str a, cand_ip_address = Undefined, cand_mac = Undefined,
      cand_mac_address = Undefined\<rparr>"

definition info_x1 :: device_info where
  "info_x1 =
     \<lparr>serialNumber = Str ''X1'', info_vendorName = Str ''Roku'', modelName = Str ''Ultra'',
      info_modelNumber = Str ''4800X'', friendlyDeviceName = Str ''Living Room'',
      softwareVersion = Str ''12.5'', powerMode = Str ''PowerOn'', info_isStick = False,
      info_isTv = False\<rparr>"

definition answer_x1 :: ecp where
  "answer_x1 ip = Inr info_x1"

text \<open>A device on its home screen: no app and no screensaver is reported.\<close>

definition home_screen :: ecp_app where
  "home_screen ip = Inr None"

text \<open>
  A row of an older version, with the device id of the first device and no serial number;
  the table that holds it alone; and the table after the first device was then seen at
  another address, which made a second row with the same device id.
\<close>

definition old_row :: device where
  "old_row =
     \<lparr>device_id = Str ''roku:X1'', ip_address = Str ''192.168.1.50'',
      name = Str ''Living Room'', model = Null, serial_number = Null,
      software_version = Null, power_mode = Null, status = Str ''unknown'',
      metadata = None, last_seen_at = Null\<rparr>"

definition old_table :: state where
  "old_table = empty_state\<lparr>rows := [(1, old_row)], next_id := 2\<rparr>"

definition twin_table :: state where
  "twin_table =
     empty_state\<lparr>rows := [(1, old_row),
         (2, new_device (Str ''roku:X1'') info_x1 (Str ''192.168.1.60'') Undefined ''t0'')],
       next_id := 3\<rparr>"

section \<open>MAC comparison, as the specification words it\<close>

text \<open>
  Two MAC addresses are the same when they have the same length and, position by
  position, the characters are equal, or are the lower-case and the upper-case form of
  one letter, or are both delimiters (colon or hyphen).
\<close>

definition lower_letters :: string where
  "lower_letters = ''abcdefghijklmnopqrstuvwxyz''"

definition upper_letters :: string where
  "upper_letters = ''ABCDEFGHIJKLMNOPQRSTUVWXYZ''"

definition same_letter :: "char \<Rightarrow> char \<Rightarrow> bool" where
  "same_letter a b =
     ((a, b) \<in> set (zip lower_letters upper_letters)
      \<or> (b, a) \<in> set (zip lower_letters upper_letters))"

definition is_delimiter :: "char \<Rightarrow> bool" where
  "is_delimiter c = (c = CHR '':'' \<or> c = CHR ''-'')"

definition same_mac_char :: "char \<Rightarrow> char \<Rightarrow> bool" where
  "same_mac_char a b = (a = b \<or> same_letter a b \<or> (is_delimiter a \<and> is_delimiter b))"

definition same_mac :: "string \<Rightarrow> string \<Rightarrow> bool" where
  "same_mac m m' = list_all2 same_mac_char m m'"

text \<open>The record has a MAC address, and it is the same as \<open>m\<close>.\<close>

definition has_same_mac :: "string \<Rightarrow> device \<Rightarrow> bool" where
  "has_same_mac m d =
     (case metadata_mac d of Str md \<Rightarrow> md \<noteq> [] \<and> same_mac md m | _ \<Rightarrow> False)"

text \<open>Every MAC address stored in the table is an ASCII string.\<close>

definition ascii_macs :: "state \<Rightarrow> bool" where
  "ascii_macs st =
     list_all (\<lambda>d. case metadata_mac d of Str md \<Rightarrow> ascii md | _ \<Rightarrow> True) (getAllDevices st)"

section \<open>Auxiliary definitions\<close>

text \<open>A sequence of upserts, and its effect on one row that is already in the registry.\<close>

definition upsert_all :: "descriptor list \<Rightarrow> reg_row list \<Rightarrow> reg_row list" where
  "upsert_all ds reg = foldl (\<lambda>r d. upsert_rows d r) reg ds"

definition rewrite_all :: "descriptor list \<Rightarrow> reg_row \<Rightarrow> reg_row" where
  "rewrite_all ds r = foldl (\<lambda>r d. rewrite_row d r) r ds"

text \<open>A record whose serial number, model and software version are those of a live answer.\<close>

definition live_backed :: "ecp \<Rightarrow> device \<Rightarrow> bool" where
  "live_backed getDeviceInfo d =
     (\<exists>info. getDeviceInfo (ip_address d) = Inr info
        \<and> serial_number d = serialNumber info
        \<and> model d = modelName info
        \<and> software_version d = softwareVersion info)"

section \<open>Power-State Interpreter: properties\<close>

text \<open>
  Claim C2. The interpreter gives the results of the test vector: \<open>Ready\<close> with no active
  app is \<open>standby\<close>; \<open>PowerOn\<close> with a screensaver is \<open>standby\<close>; \<open>PowerOn\<close> with an app is
  \<open>on\<close>; \<open>Headless\<close> with no active app is \<open>on\<close>; an unknown mode with no active app is
  \<open>on\<close>.
\<close>

theorem power_state_test_vector:
  "interpretPowerState (Str ''Ready'') None = ''standby''
   \<and> interpretPowerState (Str ''PowerOn'') (Some \<lparr>app_type = Str ''screensaver'', app_name = Undefined\<rparr>) = ''standby''
   \<and> interpretPowerState (Str ''PowerOn'') (Some \<lparr>app_type = Str ''app'', app_name = Undefined\<rparr>) = ''on''
   \<and> interpretPowerState (Str ''Headless'') None = ''on''
   \<and> interpretPowerState (Str ''garbage'') None = ''on''"
  by (simp add: interpretPowerState_def js_or_def toLowerCase_def lower_char_def is_screensaver_def)

text \<open>
  Claim C10. For every raw power mode (a string, the empty string, \<open>null\<close> or \<open>undefined\<close>)
  and every active app, the interpreter returns \<open>on\<close> or \<open>standby\<close>, and never \<open>off\<close> or
  \<open>unknown\<close>.
\<close>

theorem power_state_never_off_or_unknown:
  "(interpretPowerState rawPowerMode activeApp = ''on''
      \<or> interpretPowerState rawPowerMode activeApp = ''standby'')
   \<and> interpretPowerState rawPowerMode activeApp \<noteq> ''off''
   \<and> interpretPowerState rawPowerMode activeApp \<noteq> ''unknown''"
  by (simp add: interpretPowerState_def Let_def)

section \<open>Identity Resolver: properties\<close>

text \<open>\<open>find\<close> returns the first element with the property, when there is one.\<close>

lemma find_first_split:
  assumes "x \<in> set xs" "P x"
  shows "\<exists>pre d post. xs = pre @ d # post \<and> (\<forall>y\<in>set pre. \<not> P y) \<and> P d \<and> find P xs = Some d"
  using assms
proof (induction xs)
  case Nil
  then show ?case by simp
next
  case (Cons a xs)
  show ?case
  proof (cases "P a")
    case True
    then have "a # xs = [] @ a # xs \<and> (\<forall>y\<in>set []. \<not> P y) \<and> P a \<and> find P (a # xs) = Some a"
      by simp
    then show ?thesis by blast
  next
    case False
    with Cons.prems have "x \<in> set xs" by auto
    from Cons.IH [OF this Cons.prems(2)] obtain pre d post where
      h: "xs = pre @ d # post" "\<forall>y\<in>set pre. \<not> P y" "P d" "find P xs = Some d"
      by blast
    from h False have "a # xs = (a # pre) @ d # post \<and> (\<forall>y\<in>set (a # pre). \<not> P y) \<and> P d
        \<and> find P (a # xs) = Some d"
      by simp
    then show ?thesis by blast
  qed
qed

lemma two_devices_all: "getAllDevices two_devices = [device_x1, device_y2]"
  by (simp add: getAllDevices_def two_devices_def empty_state_def)

lemma sample_serials: "serial_number device_x1 = Str ''X1''" "serial_number device_y2 = Str ''Y2''"
  by (simp_all add: device_x1_def device_y2_def sample_device_def)

lemma sample_macs:
  "metadata_mac device_x1 = Str ''aa-bb-cc-dd-ee-01''"
  "metadata_mac device_y2 = Str ''AA:BB:CC:DD:EE:02''"
  by (simp_all add: device_x1_def device_y2_def sample_device_def metadata_mac_def)

lemma sample_mac_normal:
  "normalize_mac ''aa-bb-cc-dd-ee-01'' = ''AA:BB:CC:DD:EE:01''"
  "normalize_mac ''AA:BB:CC:DD:EE:01'' = ''AA:BB:CC:DD:EE:01''"
  "normalize_mac ''AA:BB:CC:DD:EE:02'' = ''AA:BB:CC:DD:EE:02''"
  by (simp_all add: normalize_mac_def toUpperCase_def upper_char_def)

text \<open>
  Claim C1. When the candidate has a serial number (a non-empty string) and some known
  device record has that serial number, \<open>findExistingRoku\<close> returns the record found by
  the serial scan, that is the first record of the table with that serial number, whatever
  the candidate's MAC and IP address are.
\<close>

theorem serial_match_has_priority:
  assumes "truthy sn" and "r \<in> set (getAllDevices st)" and "serial_number r = sn"
  shows "\<exists>pre d post. getAllDevices st = pre @ d # post
           \<and> (\<forall>y\<in>set pre. serial_number y \<noteq> sn) \<and> serial_number d = sn
           \<and> fst (findExistingRoku sn mac ip st) = Some d"
proof -
  from find_first_split [of r "getAllDevices st" "\<lambda>d. serial_number d = sn", OF assms(2) assms(3)]
  obtain pre d post where h: "getAllDevices st = pre @ d # post"
      "\<forall>y\<in>set pre. serial_number y \<noteq> sn" "serial_number d = sn"
      "find (\<lambda>d. serial_number d = sn) (getAllDevices st) = Some d"
    by blast
  from h(4) assms(1) have "fst (findExistingRoku sn mac ip st) = Some d"
    by (simp add: findExistingRoku_def)
  with h show ?thesis by blast
qed

text \<open>
  The candidate has the serial number of the second record, and the MAC and the IP address
  of the first: the second record is returned.
\<close>

theorem serial_match_has_priority_witness:
  "fst (findExistingRoku (Str ''Y2'') (Str ''AA:BB:CC:DD:EE:01'') (Str ''192.168.1.50'') two_devices)
     = Some device_y2"
proof -
  have "truthy (Str ''Y2'')" by simp
  moreover have "device_y2 \<in> set (getAllDevices two_devices)" by (simp add: two_devices_all)
  ultimately obtain pre d post where
    h: "getAllDevices two_devices = pre @ d # post" "serial_number d = Str ''Y2''"
      "fst (findExistingRoku (Str ''Y2'') (Str ''AA:BB:CC:DD:EE:01'') (Str ''192.168.1.50'') two_devices) = Some d"
    using serial_match_has_priority [of "Str ''Y2''" device_y2 two_devices
        "Str ''AA:BB:CC:DD:EE:01''" "Str ''192.168.1.50''"] sample_serials(2)
    by blast
  from h(1) have "d \<in> set (getAllDevices two_devices)" by simp
  then have "d = device_x1 \<or> d = device_y2" by (simp add: two_devices_all)
  with h(2) have "d = device_y2" by (auto simp: sample_serials)
  with h(3) show ?thesis by simp
qed

text \<open>The comparison of the code, character by character.\<close>

lemma letters_distinct: "distinct lower_letters" "distinct upper_letters"
  by (simp_all add: lower_letters_def upper_letters_def)

lemma letters_length: "length lower_letters = length upper_letters"
  by (simp add: lower_letters_def upper_letters_def)

lemma letters_apart: "set lower_letters \<inter> set upper_letters = {}"
  by (simp add: lower_letters_def upper_letters_def)

lemma delimiters_no_letters:
  "is_delimiter c \<Longrightarrow> c \<notin> set lower_letters \<and> c \<notin> set upper_letters"
  by (auto simp: is_delimiter_def lower_letters_def upper_letters_def)

lemma upper_char_alt:
  "upper_char c =
     (case map_of (zip lower_letters upper_letters) c of Some u \<Rightarrow> u | None \<Rightarrow> c)"
  by (simp only: upper_char_def lower_letters_def upper_letters_def)

lemma letter_pair:
  assumes "(a, u) \<in> set (zip lower_letters upper_letters)"
  shows "a \<in> set lower_letters" and "u \<in> set upper_letters" and "u \<notin> set lower_letters"
    and "\<not> is_delimiter a" and "\<not> is_delimiter u"
proof -
  show a: "a \<in> set lower_letters" using assms by (rule set_zip_leftD)
  show u: "u \<in> set upper_letters" using assms by (rule set_zip_rightD)
  from u letters_apart show "u \<notin> set lower_letters" by blast
  from a delimiters_no_letters show "\<not> is_delimiter a" by blast
  from u delimiters_no_letters show "\<not> is_delimiter u" by blast
qed

lemma letter_pair_unique:
  assumes "(a, u) \<in> set (zip lower_letters upper_letters)"
    and "(b, u) \<in> set (zip lower_letters upper_letters)"
  shows "a = b"
proof -
  have "distinct (map snd (zip lower_letters upper_letters))"
    using letters_distinct(2) by (simp only: map_snd_zip [OF letters_length])
  then have "inj_on snd (set (zip lower_letters upper_letters))"
    by (simp add: distinct_map)
  from inj_onD [OF this _ assms] show ?thesis by simp
qed

lemma upper_char_letter:
  "(a, u) \<in> set (zip lower_letters upper_letters) \<Longrightarrow> upper_char a = u"
proof -
  assume "(a, u) \<in> set (zip lower_letters upper_letters)"
  moreover have "distinct (map fst (zip lower_letters upper_letters))"
    using letters_distinct(1) by (simp only: map_fst_zip [OF letters_length])
  ultimately have "map_of (zip lower_letters upper_letters) a = Some u"
    by (simp only: map_of_eq_Some_iff)
  then show ?thesis by (simp only: upper_char_alt option.case)
qed

lemma upper_char_other: "a \<notin> set lower_letters \<Longrightarrow> upper_char a = a"
proof -
  assume "a \<notin> set lower_letters"
  then have "a \<notin> fst ` set (zip lower_letters upper_letters)"
    by (auto dest: set_zip_leftD)
  then have "map_of (zip lower_letters upper_letters) a = None"
    by (simp add: map_of_eq_None_iff)
  then show ?thesis by (simp only: upper_char_alt option.case)
qed

lemma upper_char_cases:
  "(a \<notin> set lower_letters \<and> upper_char a = a)
   \<or> (a, upper_char a) \<in> set (zip lower_letters upper_letters)"
proof (cases "a \<in> set lower_letters")
  case False
  with upper_char_other [OF False] show ?thesis by blast
next
  case True
  then have "a \<in> set (map fst (zip lower_letters upper_letters))"
    by (simp only: map_fst_zip [OF letters_length])
  then obtain u where u: "(a, u) \<in> set (zip lower_letters upper_letters)" by force
  from upper_char_letter [OF u] u show ?thesis by blast
qed

lemma upper_char_eq_iff:
  "upper_char a = upper_char b \<longleftrightarrow> a = b \<or> same_letter a b"
proof
  assume eq: "upper_char a = upper_char b"
  from upper_char_cases [of a] upper_char_cases [of b]
  show "a = b \<or> same_letter a b"
  proof (elim disjE conjE)
    assume "upper_char a = a" "upper_char b = b"
    with eq show ?thesis by simp
  next
    assume "a \<notin> set lower_letters" "upper_char a = a"
      "(b, upper_char b) \<in> set (zip lower_letters upper_letters)"
    with eq show ?thesis by (simp add: same_letter_def)
  next
    assume "(a, upper_char a) \<in> set (zip lower_letters upper_letters)"
      "b \<notin> set lower_letters" "upper_char b = b"
    with eq show ?thesis by (simp add: same_letter_def)
  next
    assume "(a, upper_char a) \<in> set (zip lower_letters upper_letters)"
      "(b, upper_char b) \<in> set (zip lower_letters upper_letters)"
    with eq have "a = b" by (simp add: letter_pair_unique)
    then show ?thesis by simp
  qed
next
  assume "a = b \<or> same_letter a b"
  then show "upper_char a = upper_char b"
  proof (elim disjE)
    assume "a = b"
    then show ?thesis by simp
  next
    assume "same_letter a b"
    then consider "(a, b) \<in> set (zip lower_letters upper_letters)"
      | "(b, a) \<in> set (zip lower_letters upper_letters)"
      by (auto simp: same_letter_def)
    then show ?thesis
    proof cases
      case 1
      from letter_pair(3) [OF 1] have "upper_char b = b" by (rule upper_char_other)
      with upper_char_letter [OF 1] show ?thesis by simp
    next
      case 2
      from letter_pair(3) [OF 2] have "upper_char a = a" by (rule upper_char_other)
      with upper_char_letter [OF 2] show ?thesis by simp
    qed
  qed
qed

lemma upper_char_delimiter: "is_delimiter (upper_char a) \<longleftrightarrow> is_delimiter a"
  using upper_char_cases [of a]
proof (elim disjE conjE)
  assume "upper_char a = a"
  then show ?thesis by simp
next
  assume p: "(a, upper_char a) \<in> set (zip lower_letters upper_letters)"
  from letter_pair(4) [OF p] letter_pair(5) [OF p] show ?thesis by simp
qed

lemma same_letter_no_delimiter: "same_letter a b \<Longrightarrow> \<not> is_delimiter a \<and> \<not> is_delimiter b"
  unfolding same_letter_def using letter_pair(4) letter_pair(5) by blast

lemma normalize_mac_map:
  "normalize_mac m = map (\<lambda>c. if is_delimiter (upper_char c) then CHR '':'' else upper_char c) m"
  by (simp add: normalize_mac_def toUpperCase_def is_delimiter_def)

lemma mac_char_eq_iff:
  "((if is_delimiter (upper_char a) then CHR '':'' else upper_char a)
     = (if is_delimiter (upper_char b) then CHR '':'' else upper_char b))
   \<longleftrightarrow> same_mac_char a b"
proof (cases "is_delimiter a")
  case da: True
  show ?thesis
  proof (cases "is_delimiter b")
    case True
    with da show ?thesis by (simp add: upper_char_delimiter same_mac_char_def)
  next
    case False
    then have "upper_char b \<noteq> CHR '':''"
      using upper_char_delimiter [of b] by (auto simp: is_delimiter_def)
    moreover from da False have "a \<noteq> b" by auto
    moreover from da have "\<not> same_letter a b" using same_letter_no_delimiter by blast
    ultimately show ?thesis using da False
      by (simp add: upper_char_delimiter same_mac_char_def)
  qed
next
  case na: False
  show ?thesis
  proof (cases "is_delimiter b")
    case True
    from na have "upper_char a \<noteq> CHR '':''"
      using upper_char_delimiter [of a] by (auto simp: is_delimiter_def)
    moreover from na True have "a \<noteq> b" by auto
    moreover from True have "\<not> same_letter a b" using same_letter_no_delimiter by blast
    ultimately show ?thesis using na True
      by (simp add: upper_char_delimiter same_mac_char_def)
  next
    case False
    with na show ?thesis
      by (simp add: upper_char_delimiter same_mac_char_def upper_char_eq_iff)
  qed
qed

lemma map_eq_iff_list_all2:
  "map f xs = map f ys \<longleftrightarrow> list_all2 (\<lambda>a b. f a = f b) xs ys"
proof (induction xs arbitrary: ys)
  case Nil
  then show ?case by simp
next
  case (Cons x xs)
  then show ?case by (cases ys) simp_all
qed

text \<open>
  The code compares the two addresses after \<open>toUpperCase\<close> and the rewriting of colons and
  hyphens; that comparison is the one the specification words.
\<close>

lemma normalize_mac_eq_iff: "normalize_mac m = normalize_mac m' \<longleftrightarrow> same_mac m m'"
  unfolding normalize_mac_map map_eq_iff_list_all2 mac_char_eq_iff same_mac_def ..

lemma mac_matches_iff: "mac_matches (normalize_mac m) d \<longleftrightarrow> has_same_mac m d"
  by (cases "metadata_mac d")
     (simp_all add: mac_matches_def has_same_mac_def normalize_mac_eq_iff)

text \<open>
  Claim C5. The MAC addresses of the candidate and of the table are ASCII strings. When no
  record matches by serial number (the candidate has none, or no record has it), the
  candidate has a MAC address, and some record's metadata MAC address is the same as the
  candidate's up to letter case and up to the choice of colon or hyphen as the delimiter,
  then \<open>findExistingRoku\<close> returns the record found by the MAC scan, that is the first record
  of the table whose MAC address is the same as the candidate's in that sense.
\<close>

theorem mac_match_after_serial:
  assumes "\<not> truthy sn \<or> (\<forall>d\<in>set (getAllDevices st). serial_number d \<noteq> sn)"
    and "m \<noteq> []" and "ascii m" and "ascii_macs st"
    and "r \<in> set (getAllDevices st)" and "has_same_mac m r"
  shows "\<exists>pre d post. getAllDevices st = pre @ d # post
           \<and> (\<forall>y\<in>set pre. \<not> has_same_mac m y)
           \<and> has_same_mac m d
           \<and> fst (findExistingRoku sn (Str m) ip st) = Some d"
proof -
  have noserial: "(if truthy sn then find (\<lambda>d. serial_number d = sn) (getAllDevices st) else None) = None"
    using assms(1) by (auto simp: find_None_iff)
  have scan: "mac_matches (normalize_mac m) = has_same_mac m"
    by (rule ext) (rule mac_matches_iff)
  from find_first_split [of r "getAllDevices st" "has_same_mac m", OF assms(5) assms(6)]
  obtain pre d post where h: "getAllDevices st = pre @ d # post"
      "\<forall>y\<in>set pre. \<not> has_same_mac m y" "has_same_mac m d"
      "find (has_same_mac m) (getAllDevices st) = Some d"
    by blast
  have "fst (findExistingRoku sn (Str m) ip st) = Some d"
    unfolding findExistingRoku_def Let_def noserial using h(4) assms(2) by (simp add: scan)
  with h show ?thesis by blast
qed

lemma sample_same_mac:
  "same_mac ''aa-bb-cc-dd-ee-01'' ''AA:BB:CC:DD:EE:01''"
  "\<not> same_mac ''AA:BB:CC:DD:EE:02'' ''AA:BB:CC:DD:EE:01''"
  by (simp_all add: same_mac_def same_mac_char_def same_letter_def is_delimiter_def
      lower_letters_def upper_letters_def)

lemma sample_ascii:
  "ascii ''AA:BB:CC:DD:EE:01''" "ascii ''AA:BB:CC:DD:EE:02''" "ascii ''aa-bb-cc-dd-ee-01''"
  by (simp_all add: ascii_def)

text \<open>
  The candidate's serial number is unknown, its MAC address is that of the first record
  in another letter case and with other delimiters, and its IP address is that of the
  second record: the first record is returned.
\<close>

theorem mac_match_after_serial_witness:
  "fst (findExistingRoku (Str ''Z9'') (Str ''AA:BB:CC:DD:EE:01'') (Str ''192.168.1.51'') two_devices)
     = Some device_x1"
proof -
  have a: "\<not> truthy (Str ''Z9'') \<or> (\<forall>d\<in>set (getAllDevices two_devices). serial_number d \<noteq> Str ''Z9'')"
    by (simp add: two_devices_all sample_serials)
  have b: "device_x1 \<in> set (getAllDevices two_devices)" by (simp add: two_devices_all)
  have c: "has_same_mac ''AA:BB:CC:DD:EE:01'' device_x1"
    by (simp add: has_same_mac_def sample_macs sample_same_mac)
  have e: "ascii_macs two_devices"
    by (simp add: ascii_macs_def two_devices_all sample_macs sample_ascii)
  have n: "''AA:BB:CC:DD:EE:01'' \<noteq> []" by simp
  obtain pre d post where
    h: "getAllDevices two_devices = pre @ d # post"
      "has_same_mac ''AA:BB:CC:DD:EE:01'' d"
      "fst (findExistingRoku (Str ''Z9'') (Str ''AA:BB:CC:DD:EE:01'') (Str ''192.168.1.51'') two_devices) = Some d"
    using mac_match_after_serial [OF a n sample_ascii(1) e b c, of "Str ''192.168.1.51''"]
    by auto
  from h(1) have "d \<in> set (getAllDevices two_devices)" by simp
  then have "d = device_x1 \<or> d = device_y2" by (simp add: two_devices_all)
  with h(2) have "d = device_x1"
    by (auto simp: has_same_mac_def sample_macs sample_same_mac)
  with h(3) show ?thesis by simp
qed

section \<open>Registry Synchronizer: properties\<close>


lemma sync_device_calls:
  "register_calls (sync_device reg d st) = register_calls st @ [sync_descriptor d]"
  by (simp add: sync_device_def find_registered_def api_registerDevice_def api_log_def Let_def
      split: list.splits sum.splits option.splits error.splits prod.splits)

lemma sync_device_registry:
  "registry (sync_device reg d st) =
     (case reg (sync_descriptor d) (registry st) of Inl e \<Rightarrow> registry st | Inr r \<Rightarrow> r)"
  by (simp add: sync_device_def find_registered_def api_registerDevice_def api_log_def Let_def
      registry_where_id_def
      split: list.splits sum.splits option.splits error.splits prod.splits)

lemma sync_device_failure_logged:
  "reg (sync_descriptor d) (registry st) = Inl (Error msg) \<Longrightarrow>
     last (log (sync_device reg d st)) = (SyncError (name d) msg, Warn)"
  by (simp add: sync_device_def find_registered_def api_registerDevice_def api_log_def Let_def
      registry_where_id_def
      split: list.splits sum.splits option.splits error.splits prod.splits)


lemma sync_loop_snoc:
  "sync_loop reg (l @ [d]) st = sync_device reg d (sync_loop reg l st)"
  by (induction l arbitrary: st) simp_all


lemma sync_loop_calls:
  "register_calls (sync_loop reg l st) = register_calls st @ map sync_descriptor l"
  by (induction l arbitrary: st) (simp_all add: sync_device_calls)


lemma write_write [simp]:
  "write_descriptor d (write_descriptor d' r) = write_descriptor d r"
  by (simp add: write_descriptor_def)

lemma reg_id_write [simp]: "reg_id (write_descriptor d r) = deviceId d"
  by (simp add: write_descriptor_def)

lemma reg_id_rewrite_row [simp]: "reg_id (rewrite_row d r) = reg_id r"
  by (simp add: rewrite_row_def)

lemma write_rewrite_row [simp]: "write_descriptor d (rewrite_row d' r) = write_descriptor d r"
  by (simp add: rewrite_row_def)

lemma rewrite_all_Cons [simp]: "rewrite_all (d # ds) r = rewrite_all ds (rewrite_row d r)"
  by (simp add: rewrite_all_def)

lemma rewrite_all_Nil [simp]: "rewrite_all [] r = r"
  by (simp add: rewrite_all_def)

lemma rewrite_all_snoc [simp]: "rewrite_all (ds @ [d]) r = rewrite_row d (rewrite_all ds r)"
  by (simp add: rewrite_all_def)

lemma reg_id_rewrite_all [simp]: "reg_id (rewrite_all ds r) = reg_id r"
  by (induction ds arbitrary: r) simp_all

lemma write_rewrite_all [simp]: "write_descriptor d (rewrite_all ds r) = write_descriptor d r"
  by (induction ds arbitrary: r) simp_all


lemma upsert_all_Cons [simp]: "upsert_all (d # ds) reg = upsert_all ds (upsert_rows d reg)"
  by (simp add: upsert_all_def)

lemma upsert_all_snoc [simp]: "upsert_all (ds @ [d]) reg = upsert_rows d (upsert_all ds reg)"
  by (simp add: upsert_all_def)









lemma recover_slug_new:
  "\<exists>new. fst (recover_slug net now info acc) = fst acc @ new
      \<and> getAllDevices (snd (recover_slug net now info acc)) = getAllDevices (snd acc) @ new
      \<and> (\<forall>d\<in>set new. live_backed net d)"
proof (cases "truthy (recover_ip (snd acc) info)")
  case False
  then have "fst (recover_slug net now info acc) = fst acc @ []
      \<and> getAllDevices (snd (recover_slug net now info acc)) = getAllDevices (snd acc) @ []
      \<and> (\<forall>d\<in>set []. live_backed net d)"
    by (simp add: recover_slug_def Let_def api_log_def getAllDevices_def)
  then show ?thesis by blast
next
  case True
  show ?thesis
  proof (cases "net (recover_ip (snd acc) info)")
    case (Inl e)
    with True have "fst (recover_slug net now info acc) = fst acc @ []
        \<and> getAllDevices (snd (recover_slug net now info acc)) = getAllDevices (snd acc) @ []
        \<and> (\<forall>d\<in>set []. live_backed net d)"
      by (cases e) (simp add: recover_slug_def Let_def api_log_def getAllDevices_def)
    then show ?thesis by blast
  next
    case (Inr i)
    let ?d = "recovered_device info (recover_ip (snd acc) info) i now"
    have "live_backed net ?d"
      unfolding live_backed_def using Inr by (auto simp: recovered_device_def)
    with True Inr have "fst (recover_slug net now info acc) = fst acc @ [?d]
        \<and> getAllDevices (snd (recover_slug net now info acc)) = getAllDevices (snd acc) @ [?d]
        \<and> (\<forall>d\<in>set [?d]. live_backed net d)"
      by (simp add: recover_slug_def Let_def api_log_def getAllDevices_def createDevice_def)
    then show ?thesis by blast
  qed
qed



lemma recover_loop_new:
  "\<exists>new. fst (recover_loop net now infos acc) = fst acc @ new
      \<and> getAllDevices (snd (recover_loop net now infos acc)) = getAllDevices (snd acc) @ new
      \<and> (\<forall>d\<in>set new. live_backed net d)"
proof (induction infos arbitrary: acc)
  case Nil
  show ?case by (rule exI [of _ "[]"]) simp
next
  case (Cons info infos)
  from recover_slug_new [of net now info acc] obtain n1 where
    a: "fst (recover_slug net now info acc) = fst acc @ n1"
       "getAllDevices (snd (recover_slug net now info acc)) = getAllDevices (snd acc) @ n1"
       "\<forall>d\<in>set n1. live_backed net d"
    by blast
  from Cons.IH [of "recover_slug net now info acc"] obtain n2 where
    b: "fst (recover_loop net now infos (recover_slug net now info acc))
          = fst (recover_slug net now info acc) @ n2"
       "getAllDevices (snd (recover_loop net now infos (recover_slug net now info acc)))
          = getAllDevices (snd (recover_slug net now info acc)) @ n2"
       "\<forall>d\<in>set n2. live_backed net d"
    by blast
  from a b have "fst (recover_loop net now (info # infos) acc) = fst acc @ (n1 @ n2)
      \<and> getAllDevices (snd (recover_loop net now (info # infos) acc))
          = getAllDevices (snd acc) @ (n1 @ n2)
      \<and> (\<forall>d\<in>set (n1 @ n2). live_backed net d)"
    by auto
  then show ?case by blast
qed



lemma recover_new:
  "\<exists>new. fst (recoverDevicesFromEntityStates net now st) = new
      \<and> getAllDevices (snd (recoverDevicesFromEntityStates net now st)) = getAllDevices st @ new
      \<and> (\<forall>d\<in>set new. live_backed net d)"
proof (cases "entity_states_like_roku st = []")
  case True
  then show ?thesis
    by (simp add: recoverDevicesFromEntityStates_def api_log_def getAllDevices_def)
next
  case False
  let ?acc = "([] :: device list, api_log (UniqueSlugs (length (collect_slugs (entity_states_like_roku st) []))) Debug st)"
  from recover_loop_new [of net now "map snd (collect_slugs (entity_states_like_roku st) [])" ?acc]
  obtain new where "fst (recover_loop net now (map snd (collect_slugs (entity_states_like_roku st) [])) ?acc) = fst ?acc @ new"
    "getAllDevices (snd (recover_loop net now (map snd (collect_slugs (entity_states_like_roku st) [])) ?acc)) = getAllDevices (snd ?acc) @ new"
    "\<forall>d\<in>set new. live_backed net d"
    by blast
  with False show ?thesis
    by (simp add: recoverDevicesFromEntityStates_def Let_def api_log_def getAllDevices_def)
qed




lemma api_log_frame [simp]:
  "rows (api_log m l st) = rows st"
  "next_id (api_log m l st) = next_id st"
  "store_ready (api_log m l st) = store_ready st"
  "registry (api_log m l st) = registry st"
  "entity_states (api_log m l st) = entity_states st"
  "broadcasts (api_log m l st) = broadcasts st"
  "bus_events (api_log m l st) = bus_events st"
  "register_calls (api_log m l st) = register_calls st"
  "getAllDevices (api_log m l st) = getAllDevices st"
  by (simp_all add: api_log_def getAllDevices_def)






text \<open>
  Claim C9. Whatever the host's \<open>registerDevice\<close> does, the loop of the synchronizer calls it
  once for every device of the list, in order; and a device for which it throws is
  skipped: the registry is left as it was and the error is logged as a warning.
\<close>

theorem sync_attempts_every_device:
  "register_calls (sync_loop registerDevice devices st)
     = register_calls st @ map sync_descriptor devices
   \<and> (registerDevice (sync_descriptor d) (registry st) = Inl (Error msg) \<longrightarrow>
        registry (sync_device registerDevice d st) = registry st
        \<and> last (log (sync_device registerDevice d st)) = (SyncError (name d) msg, Warn))"
  by (simp add: sync_loop_calls sync_device_registry sync_device_failure_logged)

lemma sample_ids:
  "normalized_id device_x1 = Str ''roku:X1''" "normalized_id device_y2 = Str ''roku:Y2''"
  by (simp_all add: normalized_id_def derived_serial_def device_x1_def device_y2_def
      sample_device_def js_or_def toLowerCase_def lower_char_def)

lemma sample_descriptor_ids:
  "deviceId (sync_descriptor device_x1) = Str ''roku:X1''"
  "deviceId (sync_descriptor device_y2) = Str ''roku:Y2''"
  by (simp_all add: sync_descriptor_def sample_ids)

text \<open>
  The registry refuses the first of two devices: both are attempted, the second is
  registered, and the failure of the first is logged.
\<close>

theorem sync_attempts_every_device_witness:
  "register_calls (sync_loop flaky_register [device_x1, device_y2] two_devices)
     = [sync_descriptor device_x1, sync_descriptor device_y2]
   \<and> registry (sync_device flaky_register device_x1 two_devices) = []
   \<and> last (log (sync_device flaky_register device_x1 two_devices))
       = (SyncError (Str ''Living Room'') ''registry unavailable'', Warn)
   \<and> map reg_id (registry (sync_loop flaky_register [device_x1, device_y2] two_devices))
       = [Str ''roku:Y2'']"
proof -
  have fail: "flaky_register (sync_descriptor device_x1) (registry two_devices)
      = Inl (Error ''registry unavailable'')"
    by (simp add: flaky_register_def sample_descriptor_ids)
  have nm: "name device_x1 = Str ''Living Room''"
    by (simp add: device_x1_def sample_device_def)
  have r0: "registry two_devices = []" "register_calls two_devices = []"
    by (simp_all add: two_devices_def empty_state_def)
  have second: "flaky_register (sync_descriptor device_y2) [] =
      Inr [write_descriptor (sync_descriptor device_y2) new_reg_row]"
    by (simp add: flaky_register_def sample_descriptor_ids registry_upsert_def upsert_rows_def)
  have reg: "map reg_id (registry (sync_loop flaky_register [device_x1, device_y2] two_devices))
      = [Str ''roku:Y2'']"
    using fail second by (simp add: sync_device_registry r0 sample_descriptor_ids)
  from sync_attempts_every_device [of flaky_register "[device_x1, device_y2]" two_devices
      device_x1 "''registry unavailable''"] fail reg
  show ?thesis by (simp add: r0 nm)
qed




section \<open>Recovery Scanner: properties\<close>

lemma sample_slugs:
  "collect_slugs (entity_states_like_roku orphan_state) []
     = [(''living_room'', living_room_slug), (''den'', den_slug)]"
  by (simp add: orphan_state_def empty_state_def entity_states_like_roku_def sample_entity_def
      entity_slug_def js_or_def slug_entry_def living_room_slug_def den_slug_def
      is_word_char_def upper_char_def)

lemma orphan_registry: "registry orphan_state = [living_room_row, den_row]"
  by (simp add: orphan_state_def empty_state_def)

lemma sample_recover_ip:
  assumes "registry st = [living_room_row, den_row]"
  shows "recover_ip st living_room_slug = Str ''192.168.1.60''"
    and "recover_ip st den_slug = Str ''192.168.1.61''"
  using assms
  by (simp_all add: recover_ip_def living_room_slug_def den_slug_def
      registry_where_type_def living_room_row_def den_row_def new_reg_row_def
      name_matches_def js_or_def toLowerCase_def lower_char_def is_lower_alnum_def)

text \<open>
  Claim C6. Every record the recovery pass returns carries the serial number, the model
  and the software version of a device-info answer fetched from the record's own address;
  the records it adds to the device table are exactly the records it returns; and for a
  slug whose recovered address does not answer, the loop body returns no further record
  and leaves the device table as it was.
\<close>

theorem recovery_only_from_live_answers:
  "(\<forall>d\<in>set (fst (recoverDevicesFromEntityStates getDeviceInfo now st)).
      live_backed getDeviceInfo d)
   \<and> getAllDevices (snd (recoverDevicesFromEntityStates getDeviceInfo now st))
       = getAllDevices st @ fst (recoverDevicesFromEntityStates getDeviceInfo now st)
   \<and> (getDeviceInfo (recover_ip (snd acc) deviceInfo) = Inl e \<longrightarrow>
        fst (recover_slug getDeviceInfo now deviceInfo acc) = fst acc
        \<and> rows (snd (recover_slug getDeviceInfo now deviceInfo acc)) = rows (snd acc))"
proof -
  have "getDeviceInfo (recover_ip (snd acc) deviceInfo) = Inl e \<Longrightarrow>
      fst (recover_slug getDeviceInfo now deviceInfo acc) = fst acc
      \<and> rows (snd (recover_slug getDeviceInfo now deviceInfo acc)) = rows (snd acc)"
    by (cases e) (simp add: recover_slug_def Let_def)
  with recover_new [of getDeviceInfo now st] show ?thesis by auto
qed

text \<open>
  Two slugs are found; the address recovered for the first answers and the address
  recovered for the second does not: one record is created, from the answer.
\<close>

theorem recovery_only_from_live_answers_witness:
  "fst (recoverDevicesFromEntityStates answer_at_60 ''t'' orphan_state)
     = [recovered_device living_room_slug (Str ''192.168.1.60'') info_z3 ''t'']
   \<and> getAllDevices (snd (recoverDevicesFromEntityStates answer_at_60 ''t'' orphan_state))
     = [recovered_device living_room_slug (Str ''192.168.1.60'') info_z3 ''t'']
   \<and> live_backed answer_at_60 (recovered_device living_room_slug (Str ''192.168.1.60'') info_z3 ''t'')
   \<and> serial_number (recovered_device living_room_slug (Str ''192.168.1.60'') info_z3 ''t'') = Str ''Z3''
   \<and> fst (recover_slug answer_at_60 ''t'' den_slug ([], orphan_state)) = []
   \<and> rows (snd (recover_slug answer_at_60 ''t'' den_slug ([], orphan_state))) = []"
proof -
  have nonempty: "entity_states_like_roku orphan_state \<noteq> []"
    by (simp add: orphan_state_def empty_state_def entity_states_like_roku_def sample_entity_def)
  have res: "fst (recoverDevicesFromEntityStates answer_at_60 ''t'' orphan_state)
      = [recovered_device living_room_slug (Str ''192.168.1.60'') info_z3 ''t'']"
    using nonempty
    by (simp add: recoverDevicesFromEntityStates_def Let_def sample_slugs recover_slug_def
        sample_recover_ip orphan_registry answer_at_60_def createDevice_def)
  have none: "getAllDevices orphan_state = []" "rows orphan_state = []"
    by (simp_all add: orphan_state_def empty_state_def getAllDevices_def)
  have den: "answer_at_60 (recover_ip (snd ([] :: device list, orphan_state)) den_slug)
      = Inl (Error ''timeout'')"
    by (simp add: answer_at_60_def sample_recover_ip orphan_registry)
  from recovery_only_from_live_answers [of answer_at_60 "''t''" orphan_state
      "([], orphan_state)" den_slug "Error ''timeout''"] res none den
  show ?thesis by (simp add: recovered_device_def info_z3_def)
qed

text \<open>
  Claim C8. The poll adapter reports the state of the device named Living Room under the
  entity id \<open>media_player.living_room\<close>. The enumeration of the recovery pass asks for ids
  that start with \<open>roku.\<close> and keeps those whose first part is \<open>roku\<close>: the row is not
  selected, no slug is extracted from it, and nothing is recovered although the device is
  in the registry and answers.
\<close>

theorem recovery_skips_media_player_rows:
  "map_sum id (map entityId) (pollDevice answer_at_60 home_screen living_room_row)
     = Inr [''media_player.living_room'']
   \<and> entity_states polled_state = [sample_entity ''media_player.living_room'']
   \<and> entity_slug (sample_entity ''media_player.living_room'') = None
   \<and> entity_states_like_roku polled_state = []
   \<and> fst (recoverDevicesFromEntityStates answer_at_60 now polled_state) = []
   \<and> rows (snd (recoverDevicesFromEntityStates answer_at_60 now polled_state)) = []"
proof -
  have n: "poll_slug ''Living Room'' = ''living_room''"
    by (simp add: poll_slug_def toLowerCase_def lower_char_def is_lower_alnum_def
        strip_underscores_def)
  have p: "map_sum id (map entityId) (pollDevice answer_at_60 home_screen living_room_row)
      = Inr [''media_player.living_room'']"
    by (simp add: pollDevice_def living_room_row_def new_reg_row_def js_or_def
        answer_at_60_def home_screen_def n Let_def)
  have s: "entity_slug (sample_entity ''media_player.living_room'') = None"
    by (simp add: entity_slug_def sample_entity_def js_or_def)
  have e: "entity_states_like_roku polled_state = []"
    by (simp add: entity_states_like_roku_def polled_state_def empty_state_def sample_entity_def)
  have r: "rows polled_state = []"
    "entity_states polled_state = [sample_entity ''media_player.living_room'']"
    by (simp_all add: polled_state_def empty_state_def)
  from p s e r show ?thesis
    by (simp add: recoverDevicesFromEntityStates_def)
qed

section \<open>Discovery candidates: properties\<close>

lemma findExistingRoku_frame:
  "rows (snd (findExistingRoku sn mac ip st)) = rows st"
  "registry (snd (findExistingRoku sn mac ip st)) = registry st"
  "broadcasts (snd (findExistingRoku sn mac ip st)) = broadcasts st"
  "register_calls (snd (findExistingRoku sn mac ip st)) = register_calls st"
  by (simp_all add: findExistingRoku_def Let_def split: option.splits)

lemma findExistingRoku_logged:
  "fst (findExistingRoku sn mac ip (api_log m l st)) = fst (findExistingRoku sn mac ip st)"
  by (simp add: findExistingRoku_def Let_def getDeviceByIp_def split: option.splits)

lemma getDevice_rows: "rows st = rows st' \<Longrightarrow> getDevice st v = getDevice st' v"
  by (simp add: getDevice_def)

text \<open>The branch for a matched record whose stored address differs from the candidate's.\<close>

lemma handle_existing_moved:
  assumes "ip_address ex \<noteq> ip"
    and "registerDevice (moved_descriptor ex ip mac) (registry st) = Inr reg'"
    and "getDevice st (device_id ex) = Some (i, ex)"
  shows "fst (handle_existing registerDevice now now' ex ip mac st)
           = Inr (Claim (device_id ex) (name ex) (serial_number ex))"
    and "rows (snd (handle_existing registerDevice now now' ex ip mac st)) =
           map (\<lambda>r. if fst r = i
                then (i, (snd r)\<lparr>ip_address := ip, status := Str ''online'',
                       last_seen_at := Str now,
                       metadata := Some ((spread (metadata ex))
                         \<lparr>mac_address := js_or mac (metadata_mac ex),
                          previous_ip := ip_address ex,
                          ip_changed_at := Str now'\<rparr>)\<rparr>)
                else r) (rows st)"
    and "broadcasts (snd (handle_existing registerDevice now now' ex ip mac st)) =
           broadcasts st @ [IpChanged (device_id ex) (name ex) (ip_address ex) ip]"
    and "registry (snd (handle_existing registerDevice now now' ex ip mac st)) = reg'"
    and "register_calls (snd (handle_existing registerDevice now now' ex ip mac st)) =
           register_calls st @ [moved_descriptor ex ip mac]"
proof -
  have g: "getDevice (api_log (CandidateIpChanged (name ex) (ip_address ex) ip) Debug st)
      (device_id ex) = Some (i, ex)"
    using assms(3) by (simp add: getDevice_def)
  show "fst (handle_existing registerDevice now now' ex ip mac st)
           = Inr (Claim (device_id ex) (name ex) (serial_number ex))"
    using assms(1,2) g
    by (simp add: handle_existing_def Let_def updateDevice_def model_update_def
        api_registerDevice_def api_broadcast_def)
  show "rows (snd (handle_existing registerDevice now now' ex ip mac st)) =
           map (\<lambda>r. if fst r = i
                then (i, (snd r)\<lparr>ip_address := ip, status := Str ''online'',
                       last_seen_at := Str now,
                       metadata := Some ((spread (metadata ex))
                         \<lparr>mac_address := js_or mac (metadata_mac ex),
                          previous_ip := ip_address ex,
                          ip_changed_at := Str now'\<rparr>)\<rparr>)
                else r) (rows st)"
    using assms(1,2) g
    by (simp add: handle_existing_def Let_def updateDevice_def model_update_def
        api_registerDevice_def api_broadcast_def moved_patch_def apply_patch_def)
  show "broadcasts (snd (handle_existing registerDevice now now' ex ip mac st)) =
           broadcasts st @ [IpChanged (device_id ex) (name ex) (ip_address ex) ip]"
    using assms(1,2) g
    by (simp add: handle_existing_def Let_def updateDevice_def model_update_def
        api_registerDevice_def api_broadcast_def)
  show "registry (snd (handle_existing registerDevice now now' ex ip mac st)) = reg'"
    using assms(1,2) g
    by (simp add: handle_existing_def Let_def updateDevice_def model_update_def
        api_registerDevice_def api_broadcast_def)
  show "register_calls (snd (handle_existing registerDevice now now' ex ip mac st)) =
           register_calls st @ [moved_descriptor ex ip mac]"
    using assms(1,2) g
    by (simp add: handle_existing_def Let_def updateDevice_def model_update_def
        api_registerDevice_def api_broadcast_def)
qed

text \<open>The same branch when the registry throws: the row is written, nothing is broadcast.\<close>

lemma handle_existing_thrown:
  assumes "ip_address ex \<noteq> ip"
    and "registerDevice (moved_descriptor ex ip mac) (registry st) = Inl e"
    and "getDevice st (device_id ex) = Some (i, ex)"
  shows "fst (handle_existing registerDevice now now' ex ip mac st) = Inl e"
    and "rows (snd (handle_existing registerDevice now now' ex ip mac st)) =
           map (\<lambda>r. if fst r = i
                then (i, (snd r)\<lparr>ip_address := ip, status := Str ''online'',
                       last_seen_at := Str now,
                       metadata := Some ((spread (metadata ex))
                         \<lparr>mac_address := js_or mac (metadata_mac ex),
                          previous_ip := ip_address ex,
                          ip_changed_at := Str now'\<rparr>)\<rparr>)
                else r) (rows st)"
    and "broadcasts (snd (handle_existing registerDevice now now' ex ip mac st)) = broadcasts st"
    and "registry (snd (handle_existing registerDevice now now' ex ip mac st)) = registry st"
proof -
  have g: "getDevice (api_log (CandidateIpChanged (name ex) (ip_address ex) ip) Debug st)
      (device_id ex) = Some (i, ex)"
    using assms(3) by (simp add: getDevice_def)
  show "fst (handle_existing registerDevice now now' ex ip mac st) = Inl e"
    using assms(1,2) g
    by (simp add: handle_existing_def Let_def updateDevice_def model_update_def
        api_registerDevice_def)
  show "rows (snd (handle_existing registerDevice now now' ex ip mac st)) =
           map (\<lambda>r. if fst r = i
                then (i, (snd r)\<lparr>ip_address := ip, status := Str ''online'',
                       last_seen_at := Str now,
                       metadata := Some ((spread (metadata ex))
                         \<lparr>mac_address := js_or mac (metadata_mac ex),
                          previous_ip := ip_address ex,
                          ip_changed_at := Str now'\<rparr>)\<rparr>)
                else r) (rows st)"
    using assms(1,2) g
    by (simp add: handle_existing_def Let_def updateDevice_def model_update_def
        api_registerDevice_def moved_patch_def apply_patch_def)
  show "broadcasts (snd (handle_existing registerDevice now now' ex ip mac st)) = broadcasts st"
    using assms(1,2) g
    by (simp add: handle_existing_def Let_def updateDevice_def model_update_def
        api_registerDevice_def)
  show "registry (snd (handle_existing registerDevice now now' ex ip mac st)) = registry st"
    using assms(1,2) g
    by (simp add: handle_existing_def Let_def updateDevice_def model_update_def
        api_registerDevice_def)
qed

text \<open>The branch for a matched record whose stored address is the candidate's.\<close>

lemma handle_existing_seen:
  assumes "ip_address ex = ip" and "getDevice st (device_id ex) = Some (i, ex)"
  shows "fst (handle_existing registerDevice now now' ex ip mac st)
           = Inr (Claim (device_id ex) (name ex) (serial_number ex))"
    and "rows (snd (handle_existing registerDevice now now' ex ip mac st)) =
           map (\<lambda>r. if fst r = i
                then (i, (snd r)\<lparr>status := Str ''online'', last_seen_at := Str now\<rparr>)
                else r) (rows st)"
    and "broadcasts (snd (handle_existing registerDevice now now' ex ip mac st)) = broadcasts st"
    and "registry (snd (handle_existing registerDevice now now' ex ip mac st)) = registry st"
    and "register_calls (snd (handle_existing registerDevice now now' ex ip mac st))
           = register_calls st"
  using assms
  by (simp_all add: handle_existing_def Let_def updateDeviceStatus_def model_update_def
      seen_patch_def apply_patch_def)

text \<open>\<open>handleDiscoveredCandidate\<close> when the device answers and a record matches.\<close>

lemma handle_matched:
  assumes "getDeviceInfo (js_or (cand_ip c) (cand_ip_address c)) = Inr info"
    and "fst (findExistingRoku (serialNumber info) (js_or (cand_mac c) (cand_mac_address c))
           (js_or (cand_ip c) (cand_ip_address c)) st) = Some ex"
  shows "\<exists>st0. rows st0 = rows st \<and> registry st0 = registry st
           \<and> broadcasts st0 = broadcasts st \<and> register_calls st0 = register_calls st
           \<and> handleDiscoveredCandidate registerDevice getDeviceInfo now now' c st =
               (case handle_existing registerDevice now now' ex
                       (js_or (cand_ip c) (cand_ip_address c))
                       (js_or (cand_mac c) (cand_mac_address c)) st0 of
                  (Inl (Error msg), st') \<Rightarrow>
                     (NoClaim, api_log (VerifyFailed (js_or (cand_ip c) (cand_ip_address c)) msg)
                        Debug st')
                | (Inr r, st') \<Rightarrow> (r, st'))"
proof -
  let ?ip = "js_or (cand_ip c) (cand_ip_address c)"
  let ?mac = "js_or (cand_mac c) (cand_mac_address c)"
  let ?st3 = "api_log (Confirmed ?ip (serialNumber info)) Debug
               (api_log (InfoFor ?ip (serialNumber info) (info_vendorName info)) Debug
                 (api_log (Checking ?ip) Debug st))"
  let ?st0 = "snd (findExistingRoku (serialNumber info) ?mac ?ip ?st3)"
  have f: "fst (findExistingRoku (serialNumber info) ?mac ?ip ?st3) = Some ex"
    using assms(2) by (simp only: findExistingRoku_logged)
  have "rows ?st0 = rows st \<and> registry ?st0 = registry st
      \<and> broadcasts ?st0 = broadcasts st \<and> register_calls ?st0 = register_calls st"
    by (simp add: findExistingRoku_frame)
  moreover have "handleDiscoveredCandidate registerDevice getDeviceInfo now now' c st =
      (case handle_existing registerDevice now now' ex ?ip ?mac ?st0 of
         (Inl (Error msg), st') \<Rightarrow> (NoClaim, api_log (VerifyFailed ?ip msg) Debug st')
       | (Inr r, st') \<Rightarrow> (r, st'))"
  proof -
    obtain e s where fe: "findExistingRoku (serialNumber info) ?mac ?ip ?st3 = (e, s)"
      by (cases "findExistingRoku (serialNumber info) ?mac ?ip ?st3")
    with f have e: "e = Some ex" "?st0 = s" by simp_all
    show ?thesis
      unfolding e(2)
      by (simp add: handleDiscoveredCandidate_def Let_def assms(1) fe e(1))
  qed
  ultimately show ?thesis by blast
qed

lemma sample_x1_fields:
  "device_id device_x1 = Str ''roku:X1''" "name device_x1 = Str ''Living Room''"
  "ip_address device_x1 = Str ''192.168.1.50''" "ip_address device_y2 = Str ''192.168.1.51''"
  "device_id device_y2 = Str ''roku-Y2''"
  by (simp_all add: device_x1_def device_y2_def sample_device_def)

lemma sample_candidate:
  "js_or (cand_ip (candidate_at ''192.168.1.77'')) (cand_ip_address (candidate_at ''192.168.1.77''))
     = Str ''192.168.1.77''"
  "js_or (cand_ip (candidate_at ''192.168.1.50'')) (cand_ip_address (candidate_at ''192.168.1.50''))
     = Str ''192.168.1.50''"
  "js_or (cand_ip (candidate_at ''192.168.1.60'')) (cand_ip_address (candidate_at ''192.168.1.60''))
     = Str ''192.168.1.60''"
  "js_or (cand_mac (candidate_at a)) (cand_mac_address (candidate_at a)) = Undefined"
  by (simp_all add: candidate_at_def js_or_def)

lemma sample_match_x1:
  "fst (findExistingRoku (serialNumber info_x1) Undefined (Str a) two_devices) = Some device_x1"
  by (simp add: findExistingRoku_def two_devices_all sample_serials info_x1_def)

lemma sample_row_x1: "getDevice two_devices (device_id device_x1) = Some (1, device_x1)"
  by (simp add: getDevice_def two_devices_def empty_state_def sample_x1_fields)

lemma two_devices_fields:
  "rows two_devices = [(1, device_x1), (2, device_y2)]" "broadcasts two_devices = []"
  "registry two_devices = []" "register_calls two_devices = []"
  by (simp_all add: two_devices_def empty_state_def)

lemma flaky_moved:
  "flaky_register (moved_descriptor device_x1 ip mac) reg = Inl (Error ''registry unavailable'')"
  by (simp add: flaky_register_def moved_descriptor_def sample_x1_fields)

text \<open>
  Claim C4, as stated, fails. The first device is seen at a new address while the
  registry refuses the update: its row is rewritten, but no IP-changed broadcast is
  emitted and the candidate is not claimed; the next sighting at that address finds
  the stored address unchanged and broadcasts nothing either. And in a table with two
  rows of one device id, which the code makes from a row without serial number when the
  device is seen at another address, the record matched by serial number is the second
  row but the first is rewritten, so the same change is broadcast at every sighting.
\<close>

theorem ip_change_broadcast_lost_or_repeated:
  "fst (handleDiscoveredCandidate flaky_register answer_x1 ''t1'' ''t2''
       (candidate_at ''192.168.1.77'') two_devices) = NoClaim
   \<and> map (\<lambda>r. ip_address (snd r)) (rows (snd (handleDiscoveredCandidate flaky_register
       answer_x1 ''t1'' ''t2'' (candidate_at ''192.168.1.77'') two_devices)))
     = [Str ''192.168.1.77'', Str ''192.168.1.51'']
   \<and> broadcasts (snd (handleDiscoveredCandidate flaky_register answer_x1 ''t1'' ''t2''
       (candidate_at ''192.168.1.77'') two_devices)) = []
   \<and> broadcasts (snd (handleDiscoveredCandidate flaky_register answer_x1 ''t3'' ''t4''
       (candidate_at ''192.168.1.77'')
       (snd (handleDiscoveredCandidate flaky_register answer_x1 ''t1'' ''t2''
          (candidate_at ''192.168.1.77'') two_devices)))) = []
   \<and> rows (snd (handleDiscoveredCandidate registry_upsert answer_x1 ''t0'' ''t0''
       (candidate_at ''192.168.1.60'') old_table)) = rows twin_table
   \<and> map (\<lambda>r. ip_address (snd r)) (rows (snd (handleDiscoveredCandidate registry_upsert
       answer_x1 ''t1'' ''t2'' (candidate_at ''192.168.1.77'') twin_table)))
     = [Str ''192.168.1.77'', Str ''192.168.1.60'']
   \<and> broadcasts (snd (handleDiscoveredCandidate registry_upsert answer_x1 ''t3'' ''t4''
       (candidate_at ''192.168.1.77'')
       (snd (handleDiscoveredCandidate registry_upsert answer_x1 ''t1'' ''t2''
          (candidate_at ''192.168.1.77'') twin_table))))
     = [IpChanged (Str ''roku:X1'') (Str ''Living Room'') (Str ''192.168.1.60'')
          (Str ''192.168.1.77''),
        IpChanged (Str ''roku:X1'') (Str ''Living Room'') (Str ''192.168.1.60'')
          (Str ''192.168.1.77'')]"
  by code_simp

text \<open>
  Claim C4, amended. The device answers, \<open>findExistingRoku\<close> matches a record, and that
  record is the first row of the table with its \<open>device_id\<close>. When the record's stored
  address differs from the candidate's, the row is rewritten in place (new address, status
  \<open>online\<close>, \<open>last_seen_at\<close> refreshed, \<open>previous_ip\<close> set to the old address, \<open>ip_changed_at\<close>
  set to the time of the change) and every other row is as it was; if the registry update
  that follows returns, exactly one IP-changed broadcast is added and the candidate is
  claimed, and if it throws, nothing is broadcast and the candidate is not claimed. When
  the stored address is the candidate's, only \<open>status\<close> and \<open>last_seen_at\<close> of the row are
  written, nothing is broadcast and the registry is not called.
\<close>

theorem ip_change_updates_row_and_broadcasts_once:
  assumes "getDeviceInfo ip = Inr info"
    and "ip = js_or (cand_ip c) (cand_ip_address c)"
    and "mac = js_or (cand_mac c) (cand_mac_address c)"
    and "fst (findExistingRoku (serialNumber info) mac ip st) = Some ex"
    and "getDevice st (device_id ex) = Some (i, ex)"
  shows "(ip_address ex \<noteq> ip \<longrightarrow>
          rows (snd (handleDiscoveredCandidate registerDevice getDeviceInfo now now' c st)) =
              map (\<lambda>r. if fst r = i
                   then (i, (snd r)\<lparr>ip_address := ip, status := Str ''online'',
                          last_seen_at := Str now,
                          metadata := Some ((spread (metadata ex))
                            \<lparr>mac_address := js_or mac (metadata_mac ex),
                             previous_ip := ip_address ex,
                             ip_changed_at := Str now'\<rparr>)\<rparr>)
                   else r) (rows st))
       \<and> (ip_address ex \<noteq> ip
            \<and> registerDevice (moved_descriptor ex ip mac) (registry st) = Inr reg' \<longrightarrow>
          fst (handleDiscoveredCandidate registerDevice getDeviceInfo now now' c st)
            = Claim (device_id ex) (name ex) (serial_number ex)
          \<and> broadcasts (snd (handleDiscoveredCandidate registerDevice getDeviceInfo now now' c st))
              = broadcasts st @ [IpChanged (device_id ex) (name ex) (ip_address ex) ip]
          \<and> registry (snd (handleDiscoveredCandidate registerDevice getDeviceInfo now now' c st))
              = reg')
       \<and> (ip_address ex \<noteq> ip
            \<and> registerDevice (moved_descriptor ex ip mac) (registry st) = Inl e \<longrightarrow>
          fst (handleDiscoveredCandidate registerDevice getDeviceInfo now now' c st) = NoClaim
          \<and> broadcasts (snd (handleDiscoveredCandidate registerDevice getDeviceInfo now now' c st))
              = broadcasts st
          \<and> registry (snd (handleDiscoveredCandidate registerDevice getDeviceInfo now now' c st))
              = registry st)
       \<and> (ip_address ex = ip \<longrightarrow>
          fst (handleDiscoveredCandidate registerDevice getDeviceInfo now now' c st)
            = Claim (device_id ex) (name ex) (serial_number ex)
          \<and> rows (snd (handleDiscoveredCandidate registerDevice getDeviceInfo now now' c st)) =
              map (\<lambda>r. if fst r = i
                   then (i, (snd r)\<lparr>status := Str ''online'', last_seen_at := Str now\<rparr>)
                   else r) (rows st)
          \<and> broadcasts (snd (handleDiscoveredCandidate registerDevice getDeviceInfo now now' c st))
              = broadcasts st
          \<and> registry (snd (handleDiscoveredCandidate registerDevice getDeviceInfo now now' c st))
              = registry st
          \<and> register_calls (snd (handleDiscoveredCandidate registerDevice getDeviceInfo now now' c st))
              = register_calls st)"
proof -
  let ?H = "handleDiscoveredCandidate registerDevice getDeviceInfo now now' c st"
  let ?new = "\<lambda>r. if fst r = i
               then (i, (snd r)\<lparr>ip_address := ip, status := Str ''online'',
                      last_seen_at := Str now,
                      metadata := Some ((spread (metadata ex))
                        \<lparr>mac_address := js_or mac (metadata_mac ex),
                         previous_ip := ip_address ex,
                         ip_changed_at := Str now'\<rparr>)\<rparr>)
               else r"
  from handle_matched [of getDeviceInfo c info st ex registerDevice now now'] assms(1-4)
  obtain st0 where
    fr: "rows st0 = rows st" "registry st0 = registry st" "broadcasts st0 = broadcasts st"
        "register_calls st0 = register_calls st"
    and h: "?H = (case handle_existing registerDevice now now' ex ip mac st0 of
                    (Inl (Error msg), st') \<Rightarrow> (NoClaim, api_log (VerifyFailed ip msg) Debug st')
                  | (Inr r, st') \<Rightarrow> (r, st'))"
    by auto
  have row0: "getDevice st0 (device_id ex) = Some (i, ex)"
    using assms(5) getDevice_rows [OF fr(1)] by simp
  have claimed: "fst (handle_existing registerDevice now now' ex ip mac st0)
        = Inr (Claim (device_id ex) (name ex) (serial_number ex)) \<Longrightarrow>
      ?H = (Claim (device_id ex) (name ex) (serial_number ex),
            snd (handle_existing registerDevice now now' ex ip mac st0))"
    unfolding h by (cases "handle_existing registerDevice now now' ex ip mac st0") simp
  have refused: "fst (handle_existing registerDevice now now' ex ip mac st0) = Inl (Error msg) \<Longrightarrow>
      ?H = (NoClaim, api_log (VerifyFailed ip msg) Debug
              (snd (handle_existing registerDevice now now' ex ip mac st0)))" for msg
    unfolding h by (cases "handle_existing registerDevice now now' ex ip mac st0") simp
  have moved: "fst ?H = Claim (device_id ex) (name ex) (serial_number ex)
      \<and> rows (snd ?H) = map ?new (rows st)
      \<and> broadcasts (snd ?H) = broadcasts st @ [IpChanged (device_id ex) (name ex) (ip_address ex) ip]
      \<and> registry (snd ?H) = reg'"
    if a: "ip_address ex \<noteq> ip"
      and b: "registerDevice (moved_descriptor ex ip mac) (registry st) = Inr reg'"
  proof -
    from b have b0: "registerDevice (moved_descriptor ex ip mac) (registry st0) = Inr reg'"
      by (simp only: fr(2))
    note m = handle_existing_moved [where registerDevice = registerDevice and now = now
        and now' = now', OF a b0 row0]
    from claimed [OF m(1)] m(2,3,4) show ?thesis by (simp add: fr)
  qed
  have thrown: "fst ?H = NoClaim
      \<and> rows (snd ?H) = map ?new (rows st)
      \<and> broadcasts (snd ?H) = broadcasts st
      \<and> registry (snd ?H) = registry st"
    if a: "ip_address ex \<noteq> ip"
      and b: "registerDevice (moved_descriptor ex ip mac) (registry st) = Inl e"
  proof -
    obtain msg where e: "e = Error msg" by (cases e)
    from b e have b0: "registerDevice (moved_descriptor ex ip mac) (registry st0) = Inl (Error msg)"
      by (simp only: fr(2))
    note m = handle_existing_thrown [where registerDevice = registerDevice and now = now
        and now' = now', OF a b0 row0]
    from refused [OF m(1)] m(2,3,4) show ?thesis by (simp add: fr)
  qed
  have written: "rows (snd ?H) = map ?new (rows st)" if a: "ip_address ex \<noteq> ip"
  proof (cases "registerDevice (moved_descriptor ex ip mac) (registry st)")
    case (Inl e')
    obtain msg where e: "e' = Error msg" by (cases e')
    from Inl e have b0: "registerDevice (moved_descriptor ex ip mac) (registry st0) = Inl (Error msg)"
      by (simp only: fr(2))
    note m = handle_existing_thrown [where registerDevice = registerDevice and now = now
        and now' = now', OF a b0 row0]
    from refused [OF m(1)] m(2) show ?thesis by (simp add: fr)
  next
    case (Inr r')
    then have b0: "registerDevice (moved_descriptor ex ip mac) (registry st0) = Inr r'"
      by (simp only: fr(2))
    note m = handle_existing_moved [where registerDevice = registerDevice and now = now
        and now' = now', OF a b0 row0]
    from claimed [OF m(1)] m(2) show ?thesis by (simp add: fr)
  qed
  have seen: "fst ?H = Claim (device_id ex) (name ex) (serial_number ex)
      \<and> rows (snd ?H) =
          map (\<lambda>r. if fst r = i
               then (i, (snd r)\<lparr>status := Str ''online'', last_seen_at := Str now\<rparr>)
               else r) (rows st)
      \<and> broadcasts (snd ?H) = broadcasts st
      \<and> registry (snd ?H) = registry st
      \<and> register_calls (snd ?H) = register_calls st"
    if a: "ip_address ex = ip"
  proof -
    note m = handle_existing_seen [where registerDevice = registerDevice and now = now
        and now' = now' and mac = mac, OF a row0]
    from claimed [OF m(1)] m(2,3,4,5) show ?thesis by (simp add: fr)
  qed
  from moved thrown written seen show ?thesis by blast
qed

text \<open>
  The first device is seen at a new address: its row gets the new address and the old
  one as \<open>previous_ip\<close>, and one broadcast is added. The same with a registry that
  refuses: the row is written and nothing is broadcast. It is seen at its stored address:
  the addresses stay and nothing is broadcast.
\<close>

theorem ip_change_updates_row_and_broadcasts_once_witness:
  "broadcasts (snd (handleDiscoveredCandidate registry_upsert answer_x1 ''t1'' ''t2''
       (candidate_at ''192.168.1.77'') two_devices))
     = [IpChanged (Str ''roku:X1'') (Str ''Living Room'') (Str ''192.168.1.50'')
          (Str ''192.168.1.77'')]
   \<and> map (\<lambda>r. ip_address (snd r)) (rows (snd (handleDiscoveredCandidate registry_upsert
       answer_x1 ''t1'' ''t2'' (candidate_at ''192.168.1.77'') two_devices)))
     = [Str ''192.168.1.77'', Str ''192.168.1.51'']
   \<and> map (\<lambda>r. previous_ip (spread (metadata (snd r)))) (rows (snd (handleDiscoveredCandidate
       registry_upsert answer_x1 ''t1'' ''t2'' (candidate_at ''192.168.1.77'') two_devices)))
     = [Str ''192.168.1.50'', Undefined]
   \<and> fst (handleDiscoveredCandidate flaky_register answer_x1 ''t1'' ''t2''
       (candidate_at ''192.168.1.77'') two_devices) = NoClaim
   \<and> broadcasts (snd (handleDiscoveredCandidate flaky_register answer_x1 ''t1'' ''t2''
       (candidate_at ''192.168.1.77'') two_devices)) = []
   \<and> broadcasts (snd (handleDiscoveredCandidate registry_upsert answer_x1 ''t1'' ''t2''
       (candidate_at ''192.168.1.50'') two_devices)) = []
   \<and> map (\<lambda>r. ip_address (snd r)) (rows (snd (handleDiscoveredCandidate registry_upsert
       answer_x1 ''t1'' ''t2'' (candidate_at ''192.168.1.50'') two_devices)))
     = [Str ''192.168.1.50'', Str ''192.168.1.51'']
   \<and> register_calls (snd (handleDiscoveredCandidate registry_upsert answer_x1 ''t1'' ''t2''
       (candidate_at ''192.168.1.50'') two_devices)) = []"
proof -
  have info: "\<And>a. answer_x1 (Str a) = Inr info_x1" by (simp add: answer_x1_def)
  note st = two_devices_fields
  have reg: "registry_upsert (moved_descriptor device_x1 (Str ''192.168.1.77'') Undefined)
      (registry two_devices)
      = Inr (upsert_rows (moved_descriptor device_x1 (Str ''192.168.1.77'') Undefined) [])"
    by (simp add: registry_upsert_def st)
  have md: "metadata device_y2 = Some (empty_metadata\<lparr>mac_address := Str ''AA:BB:CC:DD:EE:02''\<rparr>)"
    by (simp add: device_y2_def sample_device_def)
  note moved = ip_change_updates_row_and_broadcasts_once
      [where registerDevice = registry_upsert and now = "''t1''" and now' = "''t2''"
        and reg' = "upsert_rows (moved_descriptor device_x1 (Str ''192.168.1.77'') Undefined) []"
        and e = "Error []"
        and getDeviceInfo = answer_x1 and ip = "Str ''192.168.1.77''"
        and c = "candidate_at ''192.168.1.77''" and mac = Undefined and st = two_devices
        and info = info_x1 and ex = device_x1 and i = 1,
        OF info sample_candidate(1) [symmetric] sample_candidate(4) [symmetric]
          sample_match_x1 sample_row_x1]
  note thrown = ip_change_updates_row_and_broadcasts_once
      [where registerDevice = flaky_register and now = "''t1''" and now' = "''t2''"
        and reg' = "[]" and e = "Error ''registry unavailable''"
        and getDeviceInfo = answer_x1 and ip = "Str ''192.168.1.77''"
        and c = "candidate_at ''192.168.1.77''" and mac = Undefined and st = two_devices
        and info = info_x1 and ex = device_x1 and i = 1,
        OF info sample_candidate(1) [symmetric] sample_candidate(4) [symmetric]
          sample_match_x1 sample_row_x1]
  note seen = ip_change_updates_row_and_broadcasts_once
      [where registerDevice = registry_upsert and now = "''t1''" and now' = "''t2''"
        and reg' = "[]" and e = "Error []"
        and getDeviceInfo = answer_x1 and ip = "Str ''192.168.1.50''"
        and c = "candidate_at ''192.168.1.50''" and mac = Undefined and st = two_devices
        and info = info_x1 and ex = device_x1 and i = 1,
        OF info sample_candidate(2) [symmetric] sample_candidate(4) [symmetric]
          sample_match_x1 sample_row_x1]
  from moved reg have
    "broadcasts (snd (handleDiscoveredCandidate registry_upsert answer_x1 ''t1'' ''t2''
       (candidate_at ''192.168.1.77'') two_devices))
     = [IpChanged (Str ''roku:X1'') (Str ''Living Room'') (Str ''192.168.1.50'')
          (Str ''192.168.1.77'')]
     \<and> map (\<lambda>r. ip_address (snd r)) (rows (snd (handleDiscoveredCandidate registry_upsert
       answer_x1 ''t1'' ''t2'' (candidate_at ''192.168.1.77'') two_devices)))
     = [Str ''192.168.1.77'', Str ''192.168.1.51'']
     \<and> map (\<lambda>r. previous_ip (spread (metadata (snd r)))) (rows (snd (handleDiscoveredCandidate
       registry_upsert answer_x1 ''t1'' ''t2'' (candidate_at ''192.168.1.77'') two_devices)))
     = [Str ''192.168.1.50'', Undefined]"
    by (simp add: sample_x1_fields st md spread_def empty_metadata_def)
  moreover from thrown flaky_moved have
    "fst (handleDiscoveredCandidate flaky_register answer_x1 ''t1'' ''t2''
       (candidate_at ''192.168.1.77'') two_devices) = NoClaim
     \<and> broadcasts (snd (handleDiscoveredCandidate flaky_register answer_x1 ''t1'' ''t2''
       (candidate_at ''192.168.1.77'') two_devices)) = []"
    by (simp add: sample_x1_fields st)
  moreover from seen have
    "broadcasts (snd (handleDiscoveredCandidate registry_upsert answer_x1 ''t1'' ''t2''
       (candidate_at ''192.168.1.50'') two_devices)) = []
     \<and> map (\<lambda>r. ip_address (snd r)) (rows (snd (handleDiscoveredCandidate registry_upsert
       answer_x1 ''t1'' ''t2'' (candidate_at ''192.168.1.50'') two_devices)))
     = [Str ''192.168.1.50'', Str ''192.168.1.51'']
     \<and> register_calls (snd (handleDiscoveredCandidate registry_upsert answer_x1 ''t1'' ''t2''
       (candidate_at ''192.168.1.50'') two_devices)) = []"
    by (simp add: sample_x1_fields st)
  ultimately show ?thesis by simp
qed

end
